theory Spec2Isabelle
  imports Main
begin

section \<open>ConfluenceClient.script.js: values, strings and validators\<close>

text \<open>
  The script include defines two classes, \<open>ConfluenceClient\<close> and \<open>ConfluencePage\<close>.
  A method is embedded as a HOL function of the same name; the save methods of the page
  that share their name with a method of the client carry the prefix \<open>page_\<close>. A
  thrown exception is the \<open>Inl\<close> branch of a sum; mutation of \<open>this\<close> is explicit
  state passing. The methods that only load data (\<open>loadPageChildren\<close>,
  \<open>loadPageDescendants\<close>, \<open>loadPageDataById\<close>, \<open>loadPageDataByTitle\<close>,
  \<open>loadScaffoldingData\<close>) and \<open>createPage\<close> are not part of the development.

  Typing. JavaScript is untyped; the embedding fixes the types the documentation of each
  method gives: identifiers, titles, keys, bodies and label names are strings, the
  version number is an integer, a field that may be \<open>undefined\<close> is an \<open>option\<close>.
  A string is a list of 8-bit characters, read as the code units U+0000 to U+00FF.
  A number is a double: an integer of magnitude up to \<open>2 ^ 53\<close> is held exactly, and
  the result of an addition is rounded to the nearest double (\<open>roundDouble\<close> below). Where the source itself branches on the dynamic type
  or the truthiness of an arbitrary value (\<open>createNewPage\<close>, \<open>suppressNotifications\<close>,
  the value of a Scaffolding field) the value is a \<open>jsval\<close>.
\<close>

datatype jsval =
    JUndefined
  | JNull
  | JBool bool
  | JNum int
  | JNaN
  | JStr string
  | JObj nat

text \<open>Truthiness as \<open>if (v)\<close>, \<open>!v\<close> and \<open>v || d\<close> read it. An object reference is always truthy.\<close>

fun truthy :: "jsval \<Rightarrow> bool" where
  "truthy JUndefined = False"
| "truthy JNull = False"
| "truthy (JBool b) = b"
| "truthy (JNum n) = (n \<noteq> 0)"
| "truthy JNaN = False"
| "truthy (JStr s) = (s \<noteq> [])"
| "truthy (JObj r) = True"

text \<open>\<open>v === undefined || v === null\<close>.\<close>

fun nullish :: "jsval \<Rightarrow> bool" where
  "nullish JUndefined = True"
| "nullish JNull = True"
| "nullish v = False"

text \<open>\<open>typeof v === "boolean" && v == true\<close>, the test both flags of \<open>stringify\<close> and
  \<open>_getCommonExpansions\<close> go through.\<close>

definition isBooleanTrue :: "jsval \<Rightarrow> bool" where
  "isBooleanTrue v = (v = JBool True)"

text \<open>\<open>a || b\<close> on values.\<close>

definition js_or :: "jsval \<Rightarrow> jsval \<Rightarrow> jsval" where
  "js_or a b = (if truthy a then a else b)"

text \<open>Truthiness of an optional string (\<open>undefined\<close> and \<open>""\<close> are falsy) and of an optional
  number (\<open>undefined\<close> and \<open>0\<close> are falsy).\<close>

definition truthyStr :: "string option \<Rightarrow> bool" where
  "truthyStr s = (case s of None \<Rightarrow> False | Some t \<Rightarrow> t \<noteq> [])"

definition truthyNum :: "int option \<Rightarrow> bool" where
  "truthyNum n = (case n of None \<Rightarrow> False | Some k \<Rightarrow> k \<noteq> 0)"

subsection \<open>String helpers\<close>

text \<open>\<open>String.prototype.toLowerCase\<close>: the letters \<open>A\<close> to \<open>Z\<close>, and the upper-case letters
  U+00C0 to U+00DE (U+00D7, the multiplication sign, is no letter), whose lower-case
  form is 32 code units further.\<close>

definition isUpperLatin1 :: "char \<Rightarrow> bool" where
  "isUpperLatin1 c =
     (192 \<le> (of_char c :: nat) \<and> (of_char c :: nat) \<le> 222 \<and> (of_char c :: nat) \<noteq> 215)"

definition lowerChar :: "char \<Rightarrow> char" where
  "lowerChar c =
     (case map_of (zip ''ABCDEFGHIJKLMNOPQRSTUVWXYZ'' ''abcdefghijklmnopqrstuvwxyz'') c of
        Some d \<Rightarrow> d
      | None \<Rightarrow> if isUpperLatin1 c then char_of ((of_char c :: nat) + 32) else c)"

definition toLowerCase :: "string \<Rightarrow> string" where
  "toLowerCase s = map lowerChar s"

text \<open>\<open>String.prototype.trim\<close> removes white space and line terminators from both ends.
  Up to U+00FF these are space, TAB, LF, VT, FF, CR and the no-break space U+00A0.\<close>

definition isWhiteSpace :: "char \<Rightarrow> bool" where
  "isWhiteSpace c = (of_char c \<in> {32, 9, 10, 11, 12, 13, 160 :: nat})"

definition trim :: "string \<Rightarrow> string" where
  "trim s = rev (dropWhile isWhiteSpace (rev (dropWhile isWhiteSpace s)))"

text \<open>\<open>s.indexOf(sub) != -1\<close>.\<close>

fun containsStr :: "string \<Rightarrow> string \<Rightarrow> bool" where
  "containsStr sub [] = (sub = [])"
| "containsStr sub (c # cs) = (take (length sub) (c # cs) = sub \<or> containsStr sub cs)"

subsection \<open>Numbers\<close>

text \<open>
  Rounding of an integer to the nearest double, ties to the even significand. A double
  has a significand of 53 bits: \<open>doubleExponent m\<close> is the number of low bits of \<open>m\<close>
  that do not fit, \<open>q\<close> the significand and \<open>r\<close> the part cut off. The range of the
  exponent is not limited (a magnitude from \<open>2 ^ 1024\<close> on would be \<open>Infinity\<close>).
\<close>

function doubleExponent :: "nat \<Rightarrow> nat" where
  "doubleExponent m = (if m < 2 ^ 53 then 0 else Suc (doubleExponent (m div 2)))"
  by pat_completeness auto
termination
  by (relation "measure id") auto

declare doubleExponent.simps [simp del]

definition roundDouble :: "int \<Rightarrow> int" where
  "roundDouble x =
     (let m = nat \<bar>x\<bar>;
          e = doubleExponent m;
          q = m div 2 ^ e;
          r = m mod 2 ^ e;
          q' = (if 2 * r < 2 ^ e then q
                else if 2 * r > 2 ^ e then q + 1
                else if even q then q else q + 1)
      in sgn x * int (q' * 2 ^ e))"

subsection \<open>The static validators\<close>

definition isDigit :: "char \<Rightarrow> bool" where
  "isDigit c = (48 \<le> (of_char c :: nat) \<and> (of_char c :: nat) \<le> 57)"

definition isLowerLetter :: "char \<Rightarrow> bool" where
  "isLowerLetter c = (97 \<le> (of_char c :: nat) \<and> (of_char c :: nat) \<le> 122)"

definition isUpperLetter :: "char \<Rightarrow> bool" where
  "isUpperLetter c = (65 \<le> (of_char c :: nat) \<and> (of_char c :: nat) \<le> 90)"

text \<open>\<open>/^[0-9]{1,}$/.test(param.toString())\<close> on a string.\<close>

definition isValidInteger :: "string \<Rightarrow> bool" where
  "isValidInteger s = (s \<noteq> [] \<and> list_all isDigit s)"

text \<open>The same test on a number: \<open>toString()\<close> of an integer is its decimal numeral, with a
  leading minus sign when negative and in exponent notation from \<open>1e21\<close> on.\<close>

definition isValidIntegerNum :: "int \<Rightarrow> bool" where
  "isValidIntegerNum n = (0 \<le> n \<and> n < 10 ^ 21)"

text \<open>\<open>/^[0-9a-zA-Z_\-~{}%+]{1,}$/\<close>.\<close>

definition isLabelChar :: "char \<Rightarrow> bool" where
  "isLabelChar c = (isDigit c \<or> isLowerLetter c \<or> isUpperLetter c \<or> c \<in> set ''_-~{}%+'')"

definition isValidLabelName :: "string \<Rightarrow> bool" where
  "isValidLabelName s = (s \<noteq> [] \<and> list_all isLabelChar s)"

text \<open>\<open>/^(~)?[0-9a-z-]{3,255}$/\<close>.\<close>

definition isSpaceKeyChar :: "char \<Rightarrow> bool" where
  "isSpaceKeyChar c = (isDigit c \<or> isLowerLetter c \<or> c = CHR ''-'')"

definition isValidSpaceKey :: "string \<Rightarrow> bool" where
  "isValidSpaceKey s =
     (let t = (case s of [] \<Rightarrow> [] | c # cs \<Rightarrow> if c = CHR ''~'' then cs else s)
      in 3 \<le> length t \<and> length t \<le> 255 \<and> list_all isSpaceKeyChar t)"

text \<open>What a method throws. \<open>Error\<close> carries the scope the message starts with
  (\<open>[ConfluencePage.setTitle] ...\<close>); \<open>TypeError\<close> is a property access on \<open>undefined\<close>,
  \<open>SyntaxError\<close> a failing \<open>JSON.parse\<close>, \<open>TransportError\<close> a throwing
  \<open>RESTMessageV2.execute\<close>.\<close>

datatype error = Error string | TypeError | SyntaxError | TransportError

section \<open>ConfluencePage\<close>

text \<open>
  Arrays of label names are objects that are shared and mutated in place
  (\<open>updatePageLabels\<close> walks the array \<open>getLabels()\<close> returned while \<open>addLabel\<close> pushes
  to it), so a page holds the address of its label array and the arrays live in a store.
\<close>

type_synonym addr = nat

text \<open>The fields of a page object. A dirty flag that was never assigned is \<open>undefined\<close>,
  which every reader of the flags treats as \<open>false\<close>. \<open>refInternalId\<close> is
  \<open>_refConfluenceClient._strInternalId\<close>, the tag of the client the page was built with;
  the constructor refuses a missing client, so the reference itself is always set.\<close>

record page_data =
  refInternalId :: string
  strInternalId :: string
  strId :: "string option"
  strStatus :: "string option"
  strTitle :: "string option"
  strSpaceKey :: "string option"
  intVersionNumber :: "int option"
  strBody :: "string option"
  renderedHTML :: "string option"
  userReadingRestrictions :: "string list option"
  groupReadingRestrictions :: "string list option"
  userUpdatingRestrictions :: "string list option"
  groupUpdatingRestrictions :: "string list option"
  strModifierUserName :: "string option"
  strModifierDisplayName :: "string option"
  gdtModification :: "string option"
  arrLabels :: "addr option"
  strParentPageId :: "string option"
  arrScaffoldingData :: "(string \<times> jsval) list option"
  hasTitleChanged :: bool
  hasSpaceKeyChanged :: bool
  hasBodyChanged :: bool
  hasScaffoldingDataChanged :: bool
  hasParentPageIdChanged :: bool
  haveLabelsChanged :: bool

text \<open>\<open>_arrAncestors\<close> is an array of page objects; a page is its own fields plus that array.\<close>

datatype ancestor = Ancestor page_data "ancestor list option"

record ConfluencePage = page_data +
  arrAncestors :: "ancestor list option"

subsection \<open>Setters and getters\<close>

definition setStatus :: "string \<Rightarrow> 'a page_data_scheme \<Rightarrow> error + 'a page_data_scheme" where
  "setStatus s p =
     (if \<not> (s = ''current'' \<or> s = ''trashed'') then Inl (Error ''ConfluencePage.setStatus'')
      else Inr (p\<lparr>strStatus := Some s\<rparr>))"

definition setId :: "string \<Rightarrow> 'a page_data_scheme \<Rightarrow> error + 'a page_data_scheme" where
  "setId i p =
     (if \<not> isValidInteger i then Inl (Error ''ConfluencePage.setId'')
      else if truthyStr (strId p) \<and> strId p \<noteq> Some i then Inl (Error ''ConfluencePage.setId'')
      else Inr (p\<lparr>strId := Some i\<rparr>))"

definition setTitle :: "string \<Rightarrow> 'a page_data_scheme \<Rightarrow> error + 'a page_data_scheme" where
  "setTitle t p =
     (if \<not> (t \<noteq> []) then Inl (Error ''ConfluencePage.setTitle'')
      else Inr (p\<lparr>hasTitleChanged := (strTitle p \<noteq> Some t), strTitle := Some t\<rparr>))"

definition setSpaceKey :: "string \<Rightarrow> 'a page_data_scheme \<Rightarrow> error + 'a page_data_scheme" where
  "setSpaceKey k p =
     (if \<not> isValidSpaceKey k then Inl (Error ''ConfluencePage.setSpaceKey'')
      else Inr (p\<lparr>hasSpaceKeyChanged := (strSpaceKey p \<noteq> Some k), strSpaceKey := Some k\<rparr>))"

definition setVersionNumber :: "int \<Rightarrow> 'a page_data_scheme \<Rightarrow> error + 'a page_data_scheme" where
  "setVersionNumber v p =
     (if \<not> isValidIntegerNum v then Inl (Error ''ConfluencePage.setVersionNumber'')
      else
        let p1 = (if intVersionNumber p \<noteq> Some v
                  then p\<lparr>hasTitleChanged := False,
                         hasSpaceKeyChanged := False,
                         hasParentPageIdChanged := False,
                         hasBodyChanged := False,
                         haveLabelsChanged := False\<rparr>
                  else p)
        in Inr (p1\<lparr>intVersionNumber := Some v\<rparr>))"

definition increaseVersionNumber :: "'a page_data_scheme \<Rightarrow> error + 'a page_data_scheme" where
  "increaseVersionNumber p =
     (if \<not> truthyNum (intVersionNumber p) then Inl (Error ''ConfluencePage.increaseVersionNumber'')
      else Inr (p\<lparr>intVersionNumber :=
                    map_option (\<lambda>n. roundDouble (n + 1)) (intVersionNumber p)\<rparr>))"

definition setBody :: "string \<Rightarrow> 'a page_data_scheme \<Rightarrow> error + 'a page_data_scheme" where
  "setBody b p = Inr (p\<lparr>hasBodyChanged := (strBody p \<noteq> Some b), strBody := Some b\<rparr>)"

definition setParentPageId :: "string \<Rightarrow> 'a page_data_scheme \<Rightarrow> error + 'a page_data_scheme" where
  "setParentPageId i p =
     (if \<not> isValidInteger i then Inl (Error ''ConfluencePage.setParentPageId'')
      else Inr (p\<lparr>hasParentPageIdChanged := (strParentPageId p \<noteq> Some i),
                  strParentPageId := Some i\<rparr>))"

definition setScaffoldingData ::
  "(string \<times> jsval) list \<Rightarrow> 'a page_data_scheme \<Rightarrow> error + 'a page_data_scheme" where
  "setScaffoldingData d p =
     Inr (p\<lparr>arrScaffoldingData := Some d, hasScaffoldingDataChanged := True\<rparr>)"

text \<open>The loop of \<open>getScaffoldingValue\<close>: the value of the first entry with that name.\<close>

fun findField :: "string \<Rightarrow> (string \<times> jsval) list \<Rightarrow> jsval" where
  "findField n [] = JUndefined"
| "findField n (e # es) = (if fst e = n then snd e else findField n es)"

definition getScaffoldingValue :: "string \<Rightarrow> 'a page_data_scheme \<Rightarrow> error + jsval" where
  "getScaffoldingValue n p =
     (if \<not> (n \<noteq> []) then Inl (Error ''ConfluencePage.getScaffoldingValue'')
      else case arrScaffoldingData p of
             Some d \<Rightarrow> Inr (findField n d)
           | None \<Rightarrow> Inr JUndefined)"

text \<open>The loop of \<open>setScaffoldingValue\<close>: overwrite the first entry with that name and report
  it (the \<open>return\<close> inside the loop), or report that no entry matched.\<close>

fun assignField :: "string \<Rightarrow> jsval \<Rightarrow> (string \<times> jsval) list \<Rightarrow> (string \<times> jsval) list option" where
  "assignField n v [] = None"
| "assignField n v (e # es) =
     (if fst e = n then Some ((fst e, js_or v (JStr [])) # es)
      else map_option (\<lambda>r. e # r) (assignField n v es))"

definition setScaffoldingValue ::
  "string \<Rightarrow> jsval \<Rightarrow> 'a page_data_scheme \<Rightarrow> error + 'a page_data_scheme" where
  "setScaffoldingValue n v p =
     (if \<not> (n \<noteq> []) then Inl (Error ''ConfluencePage.setScaffoldingValue'')
      else case arrScaffoldingData p of
             Some d \<Rightarrow>
               (case assignField n v d of
                  Some d' \<Rightarrow> Inr (p\<lparr>arrScaffoldingData := Some d', hasScaffoldingDataChanged := True\<rparr>)
                | None \<Rightarrow>
                    Inr (p\<lparr>arrScaffoldingData := Some (d @ [(n, js_or v (JStr []))]),
                           hasScaffoldingDataChanged := True\<rparr>))
           | None \<Rightarrow>
               Inr (p\<lparr>arrScaffoldingData := Some ([] @ [(n, js_or v (JStr []))]),
                      hasScaffoldingDataChanged := True\<rparr>))"

definition isValid :: "'a page_data_scheme \<Rightarrow> bool" where
  "isValid p = (strInternalId p = refInternalId p)"


subsection \<open>stringify\<close>

text \<open>The object \<open>stringify\<close> builds and hands to \<open>JSON.stringify\<close>. A key whose value is
  \<open>undefined\<close> does not appear in the JSON text, so an optional field is \<open>None\<close> both
  when the key was never assigned and when it was assigned \<open>undefined\<close>.
  \<open>number\<close> is \<open>getVersionNumber() + 1\<close>, an addition of doubles, which is \<open>NaN\<close>
  without a version.\<close>

record version_obj =
  number :: jsval
  minorEdit :: bool

record page_payload =
  pl_id :: "string option"
  pl_version :: "version_obj option"
  pl_type :: "string option"
  pl_title :: "string option"
  pl_space_key :: "string option option"
  pl_body_storage :: "(string \<times> string) option"
  pl_ancestors :: "string list option"

definition emptyPayload :: page_payload where
  "emptyPayload =
     \<lparr>pl_id = None, pl_version = None, pl_type = None, pl_title = None,
      pl_space_key = None, pl_body_storage = None, pl_ancestors = None\<rparr>"

definition stringify :: "'a page_data_scheme \<Rightarrow> jsval \<Rightarrow> jsval \<Rightarrow> error + page_payload" where
  "stringify p createNewPage suppressNotifications =
     (let r0 = emptyPayload;
          r1 = (if \<not> isBooleanTrue createNewPage
                then r0\<lparr>pl_id := strId p,
                        pl_version :=
                          Some \<lparr>number = (case intVersionNumber p of
                                             None \<Rightarrow> JNaN
                                           | Some v \<Rightarrow> JNum (roundDouble (v + 1))),
                                minorEdit = False\<rparr>\<rparr>
                else r0)
      in case (if isBooleanTrue suppressNotifications
               then (case pl_version r1 of
                       None \<Rightarrow> Inl TypeError
                     | Some v \<Rightarrow> Inr (r1\<lparr>pl_version := Some (v\<lparr>minorEdit := True\<rparr>)\<rparr>))
               else Inr r1) of
           Inl e \<Rightarrow> Inl e
         | Inr r2 \<Rightarrow>
             let r3 = r2\<lparr>pl_type := Some ''page'',
                         pl_title := strTitle p,
                         pl_space_key := Some (strSpaceKey p)\<rparr>;
                 r4 = (if truthyStr (strBody p)
                       then r3\<lparr>pl_body_storage := Some (the (strBody p), ''storage'')\<rparr>
                       else r3);
                 r5 = (if truthyStr (strParentPageId p)
                       then r4\<lparr>pl_ancestors := Some [the (strParentPageId p)]\<rparr>
                       else r4)
             in Inr r5)"

section \<open>The store, the REST message and the remote server\<close>

text \<open>
  The address of a REST resource. The base URL of the client is a constant prefix of
  every endpoint and is left out; the suffix is kept in parts:
  \<^item> \<open>ContentSearch start cql expand\<close> is
    \<open>/rest/api/content/search?limit=1000&start=<start>&cql=<cql>&expand=<expand>\<close>,
  \<^item> \<open>Content id\<close> is \<open>/rest/api/content/<id>\<close>,
  \<^item> \<open>ContentLabel id\<close> is \<open>/rest/api/content/<id>/label\<close>,
  \<^item> \<open>ContentLabelName id name\<close> is \<open>/rest/api/content/<id>/label?name=<name>\<close>,
  \<^item> \<open>ScaffoldingForm id\<close> is \<open>/rest/scaffolding/1.0/api/form/<id>\<close>.
\<close>

datatype endpoint =
    ContentSearch nat string string
  | Content string
  | ContentLabel string
  | ContentLabelName string string
  | ScaffoldingForm string

text \<open>A request body before \<open>JSON.stringify\<close>: a page payload, the array of
  \<open>{prefix, name}\<close> label objects, the Scaffolding array, or a literal text.\<close>

datatype payload =
    PagePayload page_payload
  | LabelObjects "(string \<times> string) list"
  | ScaffoldingPayload "(string \<times> jsval) list"
  | RawBody string

record request =
  req_method :: "string option"
  req_endpoint :: "endpoint option"
  req_body :: "payload option"

text \<open>
  The state a call works on: the store of label arrays (the addresses below \<open>next_addr\<close>
  are the ones in use), the tag of the client
  (\<open>_strInternalId\<close>), what has been configured on the \<open>RESTMessageV2\<close> object (it keeps
  endpoint, method and body from one request to the next), and the requests executed
  so far, oldest first. Log output and the last error message do not influence any
  result and are not part of the state.
\<close>

record state =
  arrays :: "addr \<Rightarrow> string list"
  next_addr :: addr
  clientInternalId :: string
  restEndpoint :: "endpoint option"
  restMethod :: "string option"
  restBody :: "payload option"
  sent :: "request list"

definition alloc :: "string list \<Rightarrow> state \<Rightarrow> addr \<times> state" where
  "alloc xs st =
     (next_addr st, st\<lparr>arrays := (arrays st)(next_addr st := xs), next_addr := next_addr st + 1\<rparr>)"

definition push :: "addr \<Rightarrow> string \<Rightarrow> state \<Rightarrow> state" where
  "push a x st = st\<lparr>arrays := (arrays st)(a := arrays st a @ [x])\<rparr>"

subsection \<open>Labels of a page\<close>

definition normalizeLabel :: "string \<Rightarrow> string" where
  "normalizeLabel n = trim (toLowerCase n)"

definition hasLabel :: "string \<Rightarrow> 'a page_data_scheme \<Rightarrow> state \<Rightarrow> error + bool" where
  "hasLabel n p st =
     (if \<not> isValidLabelName n then Inl (Error ''ConfluencePage.hasLabel'')
      else case arrLabels p of
             Some a \<Rightarrow> Inr (normalizeLabel n \<in> set (arrays st a))
           | None \<Rightarrow> Inr False)"

definition addLabel ::
  "string \<Rightarrow> 'a page_data_scheme \<Rightarrow> state \<Rightarrow> error + ('a page_data_scheme \<times> state)" where
  "addLabel n p st =
     (if \<not> isValidLabelName n then Inl (Error ''ConfluencePage.addLabel'')
      else
        case arrLabels p of
          Some a \<Rightarrow>
            if normalizeLabel n \<in> set (arrays st a) then Inr (p, st)
            else Inr (p\<lparr>haveLabelsChanged := True\<rparr>, push a (normalizeLabel n) st)
        | None \<Rightarrow>
            let (a, st1) = alloc [] st
            in Inr (p\<lparr>arrLabels := Some a, haveLabelsChanged := True\<rparr>,
                    push a (normalizeLabel n) st1))"

text \<open>\<open>removeLabel\<close> collects the remaining names in a new array and assigns that array to
  the page; the array the page held before is left as it was.\<close>

definition removeLabel ::
  "string \<Rightarrow> 'a page_data_scheme \<Rightarrow> state \<Rightarrow> error + ('a page_data_scheme \<times> state)" where
  "removeLabel n p st =
     (if \<not> isValidLabelName n then Inl (Error ''ConfluencePage.addLabel'')
      else
        case arrLabels p of
          Some a \<Rightarrow>
            let (b, st1) = alloc (filter (\<lambda>x. x \<noteq> normalizeLabel n) (arrays st a)) st
            in Inr (p\<lparr>haveLabelsChanged :=
                          (if normalizeLabel n \<in> set (arrays st a) then True
                           else haveLabelsChanged p),
                       arrLabels := Some b\<rparr>, st1)
        | None \<Rightarrow> Inr (p, st))"


subsection \<open>The constructor\<close>

text \<open>
  The JSON object of a page as the REST API returns it, restricted to the properties
  \<open>initialize\<close> reads. A property reached through a chain of objects
  (\<open>jsonPage.space.key\<close>) is an \<open>option\<close> of its value: \<open>None\<close> when an object on the
  way is missing, so that the access throws a \<open>TypeError\<close>; the value itself may again
  be \<open>undefined\<close>. \<open>j_labels_results\<close> is \<open>Some None\<close> when
  \<open>metadata.labels.results\<close> is not an array, \<open>j_ancestors\<close> is \<open>None\<close> when
  \<open>ancestors\<close> is not an array.
\<close>

record lastUpdated_json =
  lu_by :: "(string option \<times> string option) option"
  lu_when :: "string option"

datatype page_json = PageJson
  (j_id: "string option")
  (j_status: "string option")
  (j_title: "string option")
  (j_space_key: "string option option")
  (j_version_number: "int option option")
  (j_body_storage_value: "string option option")
  (j_body_styled_view_value: "string option option")
  (j_read_user: "string list option option")
  (j_read_group: "string list option option")
  (j_update_user: "string list option option")
  (j_update_group: "string list option option")
  (j_lastUpdated: "lastUpdated_json option")
  (j_labels_results: "string list option option")
  (j_ancestors: "page_json list option")

text \<open>\<open>new ConfluencePage(refConfluenceClient)\<close> without \<open>jsonPage\<close>: only the reference to
  the client and its tag are assigned.\<close>

definition barePage :: "state \<Rightarrow> ConfluencePage" where
  "barePage st =
     \<lparr>refInternalId = clientInternalId st,
      strInternalId = clientInternalId st,
      strId = None, strStatus = None, strTitle = None, strSpaceKey = None,
      intVersionNumber = None, strBody = None, renderedHTML = None,
      userReadingRestrictions = None, groupReadingRestrictions = None,
      userUpdatingRestrictions = None, groupUpdatingRestrictions = None,
      strModifierUserName = None, strModifierDisplayName = None,
      gdtModification = None, arrLabels = None, strParentPageId = None,
      arrScaffoldingData = None,
      hasTitleChanged = False, hasSpaceKeyChanged = False, hasBodyChanged = False,
      hasScaffoldingDataChanged = False, hasParentPageIdChanged = False,
      haveLabelsChanged = False,
      arrAncestors = None\<rparr>"

text \<open>The assignments of \<open>initialize\<close> up to the history block. Each chained access that
  throws is a \<open>None\<close> here.\<close>

definition readFields :: "page_json \<Rightarrow> ConfluencePage \<Rightarrow> error + ConfluencePage" where
  "readFields j p =
     (case (j_space_key j, j_version_number j, j_body_storage_value j,
            j_body_styled_view_value j) of
        (Some k, Some v, Some b, Some h) \<Rightarrow>
          (case (j_read_user j, j_read_group j, j_update_user j, j_update_group j) of
             (Some ru, Some rg, Some uu, Some ug) \<Rightarrow>
               (case j_lastUpdated j of
                  Some lu \<Rightarrow>
                    let p1 = p\<lparr>strId := j_id j, strStatus := j_status j, strTitle := j_title j,
                                strSpaceKey := k, intVersionNumber := v, strBody := b,
                                renderedHTML := h,
                                userReadingRestrictions := ru,
                                groupReadingRestrictions := rg,
                                userUpdatingRestrictions := uu,
                                groupUpdatingRestrictions := ug\<rparr>;
                        p2 = (case lu_by lu of
                                Some (un, dn) \<Rightarrow>
                                  p1\<lparr>strModifierUserName := un, strModifierDisplayName := dn\<rparr>
                              | None \<Rightarrow> p1);
                        p3 = (if truthyStr (lu_when lu)
                              then p2\<lparr>gdtModification := lu_when lu\<rparr>
                              else p2)
                    in Inr p3
                | None \<Rightarrow> Inl TypeError)
           | _ \<Rightarrow> Inl TypeError)
      | _ \<Rightarrow> Inl TypeError)"

text \<open>The label block: a non-empty array of label objects becomes a new array of their
  names, as the server spells them.\<close>

definition readLabels :: "page_json \<Rightarrow> ConfluencePage \<Rightarrow> state \<Rightarrow> error + (ConfluencePage \<times> state)" where
  "readLabels j p st =
     (case j_labels_results j of
        None \<Rightarrow> Inl TypeError
      | Some None \<Rightarrow> Inr (p, st)
      | Some (Some ns) \<Rightarrow>
          if length ns > 0
          then (let (a, st1) = alloc ns st in Inr (p\<lparr>arrLabels := Some a\<rparr>, st1))
          else Inr (p, st))"

text \<open>\<open>setParentPageId(jsonPage.ancestors[length - 1].id)\<close>; \<open>isValidInteger\<close> calls
  \<open>toString\<close> on its argument, which throws on \<open>undefined\<close>.\<close>

definition readParent :: "page_json list \<Rightarrow> ConfluencePage \<Rightarrow> error + ConfluencePage" where
  "readParent ancs p =
     (case j_id (last ancs) of
        None \<Rightarrow> Inl TypeError
      | Some i \<Rightarrow> setParentPageId i p)"

definition clearFlags :: "ConfluencePage \<Rightarrow> ConfluencePage" where
  "clearFlags p =
     p\<lparr>hasTitleChanged := False, hasSpaceKeyChanged := False, hasBodyChanged := False,
       hasScaffoldingDataChanged := False, hasParentPageIdChanged := False,
       haveLabelsChanged := False\<rparr>"

definition asAncestor :: "ConfluencePage \<Rightarrow> ancestor" where
  "asAncestor p = Ancestor (page_data.truncate p) (arrAncestors p)"

text \<open>\<open>initialize\<close> with a JSON object, and its loop over \<open>jsonPage.ancestors\<close>, which
  constructs a page for every ancestor. An exception leaves the constructor at once.\<close>

fun initialize :: "page_json \<Rightarrow> state \<Rightarrow> (error + ConfluencePage) \<times> state"
  and initializeAncestors :: "page_json list \<Rightarrow> state \<Rightarrow> (error + ancestor list) \<times> state" where
  "initialize (PageJson i s t k v b h ru rg uu ug lu ls ancs) st =
     (let j = PageJson i s t k v b h ru rg uu ug lu ls ancs in
      case readFields j (barePage st) of
        Inl e \<Rightarrow> (Inl e, st)
      | Inr p1 \<Rightarrow>
          (case readLabels j p1 st of
             Inl e \<Rightarrow> (Inl e, st)
           | Inr (p2, st2) \<Rightarrow>
               (case ancs of
                  None \<Rightarrow> (Inr (clearFlags p2), st2)
                | Some [] \<Rightarrow> (Inr (clearFlags p2), st2)
                | Some (a # as) \<Rightarrow>
                    (case readParent (a # as) p2 of
                       Inl e \<Rightarrow> (Inl e, st2)
                     | Inr p3 \<Rightarrow>
                         (case initializeAncestors (a # as) st2 of
                            (Inl e, st3) \<Rightarrow> (Inl e, st3)
                          | (Inr ps, st3) \<Rightarrow>
                              (Inr (clearFlags (p3\<lparr>arrAncestors := Some ps\<rparr>)), st3))))))"
| "initializeAncestors [] st = (Inr [], st)"
| "initializeAncestors (j # js) st =
     (case initialize j st of
        (Inl e, st1) \<Rightarrow> (Inl e, st1)
      | (Inr p, st1) \<Rightarrow>
          (case initializeAncestors js st1 of
             (Inl e, st2) \<Rightarrow> (Inl e, st2)
           | (Inr ps, st2) \<Rightarrow> (Inr (asAncestor p # ps), st2)))"


section \<open>ConfluenceClient\<close>

text \<open>
  What \<open>JSON.parse(objResponse.getBody())\<close> yields, by the shape of the document:
  a text that is no JSON (\<open>JSON.parse\<close> throws), a page object, the result list of a
  search (\<open>results\<close>, \<open>None\<close> when the property is missing), the label list of a page
  (\<open>size\<close>, taken as \<open>0\<close> when missing, and the names of \<open>results\<close>), or some other
  object with none of these properties. Documents are typed: every result of a search
  is a page object, every label has a name. A method that receives a document of
  another kind than it asked for reads it like \<open>OtherDoc\<close>.
\<close>

datatype body =
    NoJson
  | PageDoc page_json
  | ResultsDoc "page_json list option"
  | LabelsDoc nat "string list option"
  | OtherDoc

text \<open>\<open>execute()\<close> returns a response with a status code and a body, or throws.\<close>

datatype reply = Response int body | NoResponse

text \<open>The remote side: what it answers to a request, given the requests it has seen.\<close>

type_synonym server = "request list \<Rightarrow> request \<Rightarrow> reply"

definition setEndpoint :: "endpoint \<Rightarrow> state \<Rightarrow> state" where
  "setEndpoint e st = st\<lparr>restEndpoint := Some e\<rparr>"

definition setHttpMethod :: "string \<Rightarrow> state \<Rightarrow> state" where
  "setHttpMethod m st = st\<lparr>restMethod := Some m\<rparr>"

definition setRequestBody :: "payload \<Rightarrow> state \<Rightarrow> state" where
  "setRequestBody b st = st\<lparr>restBody := Some b\<rparr>"

definition currentRequest :: "state \<Rightarrow> request" where
  "currentRequest st =
     \<lparr>req_method = restMethod st, req_endpoint = restEndpoint st, req_body = restBody st\<rparr>"

definition executeRequest :: "server \<Rightarrow> state \<Rightarrow> reply \<times> state" where
  "executeRequest srv st =
     (srv (sent st) (currentRequest st), st\<lparr>sent := sent st @ [currentRequest st]\<rparr>)"

text \<open>String concatenation with a value that may be \<open>undefined\<close>.\<close>

definition strOf :: "string option \<Rightarrow> string" where
  "strOf s = (case s of None \<Rightarrow> ''undefined'' | Some t \<Rightarrow> t)"

definition getCommonExpansions :: "jsval \<Rightarrow> string" where
  "getCommonExpansions includeContent =
     (let strExpand =
        ''version,'' @ ''space,'' @ ''metadata.labels,'' @ ''history.lastUpdated,'' @
        ''restrictions.read.restrictions.group,'' @
        ''restrictions.update.restrictions.group,'' @
        ''restrictions.read.restrictions.user,'' @
        ''restrictions.update.restrictions.user,'' @
        ''ancestors,'' @ ''ancestors.version,'' @ ''ancestors.space,'' @
        ''ancestors.metadata.labels,'' @ ''ancestors.history.lastUpdated,'' @
        ''ancestors.restrictions.read.restrictions.group,'' @
        ''ancestors.restrictions.update.restrictions.group,'' @
        ''ancestors.restrictions.read.restrictions.user,'' @
        ''ancestors.restrictions.update.restrictions.user''
      in if isBooleanTrue includeContent
         then strExpand @ '',body.storage,body.styled_view''
         else strExpand)"

text \<open>\<open>_isValidPageObj\<close>: the argument is a \<open>ConfluencePage\<close> by its type.\<close>

definition isValidPageObj :: "ConfluencePage \<Rightarrow> bool" where
  "isValidPageObj p = isValid p"

text \<open>
  The result of a client method that works on a page: the value returned, or the
  exception thrown to the caller, together with the page and the state as the call
  left them.
\<close>

type_synonym 'a result = "(error + 'a) \<times> ConfluencePage \<times> state"

subsection \<open>Labels\<close>

text \<open>The second loop of \<open>addPageLabels\<close>: \<open>objPage.addLabel\<close> for every name.\<close>

fun addLabels :: "string list \<Rightarrow> ConfluencePage \<Rightarrow> state \<Rightarrow> error option \<times> ConfluencePage \<times> state" where
  "addLabels [] p st = (None, p, st)"
| "addLabels (n # ns) p st =
     (case addLabel n p st of
        Inl e \<Rightarrow> (Some e, p, st)
      | Inr (p1, st1) \<Rightarrow> addLabels ns p1 st1)"

text \<open>\<open>arrLabelNames\<close> is an array of its own, as in the call
  \<open>addPageLabels(objPage, [arrLocalLabels[c]])\<close>; the first loop throws at the first
  invalid name.\<close>

definition addPageLabels :: "server \<Rightarrow> ConfluencePage \<Rightarrow> string list \<Rightarrow> state \<Rightarrow> bool result" where
  "addPageLabels srv p arrLabelNames st =
     (if \<not> isValidPageObj p then (Inl (Error ''ConfluenceClient.addPageLabels''), p, st)
      else if \<not> truthyStr (strId p) then (Inl (Error ''ConfluenceClient.addPageLabels''), p, st)
      else if length arrLabelNames = 0 then (Inr False, p, st)
      else if \<not> list_all isValidLabelName arrLabelNames
        then (Inl (Error ''ConfluenceClient.addPageLabels''), p, st)
      else
        let arrLabelObjects = map (\<lambda>n. (''global'', n)) arrLabelNames;
            st1 = setEndpoint (ContentLabel (strOf (strId p))) st;
            st2 = setHttpMethod ''post'' st1;
            st3 = setRequestBody (LabelObjects arrLabelObjects) st2
        in case executeRequest srv st3 of
             (Response code b, st4) \<Rightarrow>
               if code = 200
               then (case addLabels arrLabelNames p st4 of
                       (None, p5, st5) \<Rightarrow> (Inr True, p5, st5)
                     | (Some e, p5, st5) \<Rightarrow> (Inr False, p5, st5))
               else (Inr False, p, st4)
           | (NoResponse, st4) \<Rightarrow> (Inr False, p, st4))"

definition removePageLabel :: "server \<Rightarrow> ConfluencePage \<Rightarrow> string \<Rightarrow> state \<Rightarrow> bool result" where
  "removePageLabel srv p strLabelName st =
     (if \<not> isValidLabelName strLabelName then (Inl (Error ''ConfluenceClient.removePageLabel''), p, st)
      else if \<not> isValidPageObj p then (Inl (Error ''ConfluenceClient.removePageLabel''), p, st)
      else if \<not> truthyStr (strId p) then (Inl (Error ''ConfluenceClient.removePageLabel''), p, st)
      else
        let st1 = setEndpoint (ContentLabelName (strOf (strId p)) strLabelName) st;
            st2 = setHttpMethod ''delete'' st1;
            st3 = setRequestBody (RawBody ''x'') st2
        in case executeRequest srv st3 of
             (Response code b, st4) \<Rightarrow>
               if code = 204
               then (case removeLabel strLabelName p st4 of
                       Inr (p5, st5) \<Rightarrow> (Inr True, p5, st5)
                     | Inl e \<Rightarrow> (Inr False, p, st4))
               else (Inr False, p, st4)
           | (NoResponse, st4) \<Rightarrow> (Inr False, p, st4))"

text \<open>The inner loops of \<open>updatePageLabels\<close>. Each runs over the whole array and sets its
  flag whenever \<open>==\<close> holds between the name of the server and the name of the page.\<close>

definition existsLocally :: "string \<Rightarrow> string list \<Rightarrow> bool" where
  "existsLocally remoteName arrLocalLabels =
     foldl (\<lambda>e l. if remoteName = l then True else e) False arrLocalLabels"

definition existsRemote :: "string \<Rightarrow> string list \<Rightarrow> bool" where
  "existsRemote localName arrRemoteLabels =
     foldl (\<lambda>e r. if localName = r then True else e) False arrRemoteLabels"

text \<open>The loop over \<open>arrRemoteLabels\<close>; \<open>loc\<close> is the address of \<open>arrLocalLabels\<close>.\<close>

fun removeLoop ::
  "server \<Rightarrow> addr \<Rightarrow> string list \<Rightarrow> bool \<Rightarrow> ConfluencePage \<Rightarrow> state
     \<Rightarrow> (error + bool) \<times> ConfluencePage \<times> state" where
  "removeLoop srv loc [] result1 p st = (Inr result1, p, st)"
| "removeLoop srv loc (r # rs) result1 p st =
     (if \<not> existsLocally r (arrays st loc)
      then (case removePageLabel srv p r st of
              (Inl e, p1, st1) \<Rightarrow> (Inl e, p1, st1)
            | (Inr ok, p1, st1) \<Rightarrow>
                removeLoop srv loc rs (if \<not> ok then False else result1) p1 st1)
      else removeLoop srv loc rs result1 p st)"


text \<open>
  The loop over \<open>arrLocalLabels\<close> reads the length of the array in every round, and
  \<open>addPageLabels\<close> may push to that very array through \<open>addLabel\<close>. What it pushes is
  a normalised name that was not in the array, and normalising is idempotent, so the
  rounds that can still push are used up. The lemmas up to \<open>addMeasure_single\<close> make
  this the termination argument of \<open>addLoop\<close>.
\<close>

lemma lowerChar_code:
  "(of_char (lowerChar c) :: nat) =
     (if (65 \<le> (of_char c :: nat) \<and> (of_char c :: nat) \<le> 90) \<or> isUpperLatin1 c
      then of_char c + 32 else of_char c)"
proof (cases "map_of (zip ''ABCDEFGHIJKLMNOPQRSTUVWXYZ'' ''abcdefghijklmnopqrstuvwxyz'') c")
  case (Some d)
  then show ?thesis
    by (auto simp: lowerChar_def isUpperLatin1_def split: if_splits)
next
  case None
  have "\<not> (65 \<le> (of_char c :: nat) \<and> (of_char c :: nat) \<le> 90)"
  proof
    assume "65 \<le> (of_char c :: nat) \<and> (of_char c :: nat) \<le> 90"
    then have "\<exists>d \<in> set ''ABCDEFGHIJKLMNOPQRSTUVWXYZ''. (of_char d :: nat) = of_char c"
      by (simp del: of_char_eq_iff) arith
    then have "c \<in> set ''ABCDEFGHIJKLMNOPQRSTUVWXYZ''"
      by (metis of_char_eq_iff)
    then have "map_of (zip ''ABCDEFGHIJKLMNOPQRSTUVWXYZ'' ''abcdefghijklmnopqrstuvwxyz'') c \<noteq> None"
      by auto
    with None show False by simp
  qed
  with None show ?thesis
    by (auto simp: lowerChar_def isUpperLatin1_def)
qed

lemma lowerChar_idem: "lowerChar (lowerChar c) = lowerChar c"
proof -
  have "(of_char (lowerChar (lowerChar c)) :: nat) = of_char (lowerChar c)"
    by (auto simp: lowerChar_code isUpperLatin1_def)
  then show ?thesis by (metis of_char_eq_iff)
qed

lemma lowerChar_ws: "isWhiteSpace (lowerChar c) = isWhiteSpace c"
  by (auto simp: isWhiteSpace_def lowerChar_code isUpperLatin1_def)

lemma toLowerCase_dropWhile:
  "toLowerCase (dropWhile isWhiteSpace s) = dropWhile isWhiteSpace (toLowerCase s)"
  by (induction s) (simp_all add: toLowerCase_def lowerChar_ws)

lemma toLowerCase_rev: "toLowerCase (rev s) = rev (toLowerCase s)"
  by (simp add: toLowerCase_def rev_map)

lemma toLowerCase_trim: "toLowerCase (trim s) = trim (toLowerCase s)"
  by (simp add: trim_def toLowerCase_dropWhile toLowerCase_rev)

lemma toLowerCase_idem: "toLowerCase (toLowerCase s) = toLowerCase s"
  by (simp add: toLowerCase_def lowerChar_idem)

lemma last_dropWhile_ne: "dropWhile P xs \<noteq> [] \<Longrightarrow> last (dropWhile P xs) = last xs"
  by (metis last_appendR takeWhile_dropWhile_id)

lemma trim_fix:
  "xs = [] \<or> (\<not> isWhiteSpace (hd xs) \<and> \<not> isWhiteSpace (last xs)) \<Longrightarrow> trim xs = xs"
proof (cases "xs = []")
  case True then show ?thesis by (simp add: trim_def)
next
  case False
  assume "xs = [] \<or> (\<not> isWhiteSpace (hd xs) \<and> \<not> isWhiteSpace (last xs))"
  with False have h: "\<not> isWhiteSpace (hd xs)" and l: "\<not> isWhiteSpace (last xs)" by auto
  have 1: "dropWhile isWhiteSpace xs = xs" using h by (simp add: dropWhile_eq_self_iff)
  have 2: "dropWhile isWhiteSpace (rev xs) = rev xs"
    using l False by (simp add: dropWhile_eq_self_iff hd_rev)
  show ?thesis by (simp add: trim_def 1 2)
qed

lemma trim_ends:
  "trim s = [] \<or> (\<not> isWhiteSpace (hd (trim s)) \<and> \<not> isWhiteSpace (last (trim s)))"
proof (cases "trim s = []")
  case True then show ?thesis by simp
next
  case False
  let ?X = "dropWhile isWhiteSpace s"
  let ?Y = "dropWhile isWhiteSpace (rev ?X)"
  from False have Y: "?Y \<noteq> []" by (simp add: trim_def)
  then have X: "?X \<noteq> []" by (metis dropWhile.simps(1) rev.simps(1))
  have "last (trim s) = hd ?Y" using Y by (simp add: trim_def last_rev)
  moreover have "\<not> isWhiteSpace (hd ?Y)" using Y hd_dropWhile by blast
  moreover have "hd (trim s) = last ?Y" using Y by (simp add: trim_def hd_rev)
  moreover have "last ?Y = hd ?X" using Y X by (simp add: last_dropWhile_ne last_rev)
  moreover have "\<not> isWhiteSpace (hd ?X)" using X hd_dropWhile by blast
  ultimately show ?thesis by simp
qed

lemma trim_idem: "trim (trim s) = trim s"
  using trim_ends[of s] by (rule trim_fix)

lemma normalizeLabel_idem: "normalizeLabel (normalizeLabel n) = normalizeLabel n"
  by (simp add: normalizeLabel_def toLowerCase_trim trim_idem toLowerCase_idem)


lemma addLabel_arrays:
  "addLabel l p st = Inr (p1, st1) \<Longrightarrow>
     arrays st1 loc = arrays st loc
     \<or> (arrays st1 loc = arrays st loc @ [normalizeLabel l] \<and> normalizeLabel l \<notin> set (arrays st loc))
     \<or> arrays st1 loc = [normalizeLabel l]"
  by (auto simp: addLabel_def push_def alloc_def split: if_splits option.splits)

lemma addPageLabels_arrays:
  "addPageLabels srv p [l] st = (r, p1, st1) \<Longrightarrow>
     arrays st1 loc = arrays st loc
     \<or> (arrays st1 loc = arrays st loc @ [normalizeLabel l] \<and> normalizeLabel l \<notin> set (arrays st loc))
     \<or> arrays st1 loc = [normalizeLabel l]"
  by (auto simp: addPageLabels_def executeRequest_def setEndpoint_def setHttpMethod_def
        setRequestBody_def Let_def
      split: if_splits reply.splits sum.splits prod.splits option.splits
      dest!: addLabel_arrays[where loc = loc])

definition pending :: "nat \<Rightarrow> string list \<Rightarrow> nat set" where
  "pending c xs = {i. c \<le> i \<and> i < length xs \<and> normalizeLabel (xs ! i) \<notin> set xs}"

definition addMeasure :: "nat \<Rightarrow> string list \<Rightarrow> nat" where
  "addMeasure c xs = 2 * card (pending c xs) + (length xs - c)"

lemma finite_pending: "finite (pending c xs)"
  by (simp add: pending_def)

lemma addMeasure_same: "c < length xs \<Longrightarrow> addMeasure (Suc c) xs < addMeasure c xs"
proof -
  assume c: "c < length xs"
  have "pending (Suc c) xs \<subseteq> pending c xs" by (auto simp: pending_def)
  then have "card (pending (Suc c) xs) \<le> card (pending c xs)"
    by (simp add: card_mono finite_pending)
  with c show ?thesis by (simp add: addMeasure_def)
qed

lemma addMeasure_push:
  assumes c: "c < length xs" and y: "normalizeLabel (xs ! c) \<notin> set xs"
  shows "addMeasure (Suc c) (xs @ [normalizeLabel (xs ! c)]) < addMeasure c xs"
proof -
  let ?y = "normalizeLabel (xs ! c)"
  have sub: "pending (Suc c) (xs @ [?y]) \<subseteq> pending c xs - {c}"
  proof
    fix i assume i: "i \<in> pending (Suc c) (xs @ [?y])"
    then have ci: "Suc c \<le> i" and il: "i < Suc (length xs)"
      and n: "normalizeLabel ((xs @ [?y]) ! i) \<notin> set (xs @ [?y])"
      by (auto simp: pending_def)
    have "i \<noteq> length xs"
    proof
      assume "i = length xs"
      with n show False by (simp add: normalizeLabel_idem)
    qed
    with il have il': "i < length xs" by simp
    with n have "normalizeLabel (xs ! i) \<notin> set xs" by (simp add: nth_append)
    with ci il' show "i \<in> pending c xs - {c}" by (auto simp: pending_def)
  qed
  have cin: "c \<in> pending c xs" using c y by (simp add: pending_def)
  have "card (pending (Suc c) (xs @ [?y])) \<le> card (pending c xs - {c})"
    using sub by (simp add: card_mono finite_pending)
  also have "\<dots> = card (pending c xs) - 1" using cin by (simp add: finite_pending)
  finally have le: "card (pending (Suc c) (xs @ [?y])) \<le> card (pending c xs) - 1" .
  have pos: "0 < card (pending c xs)" using cin finite_pending card_gt_0_iff by blast
  show ?thesis using le pos c by (simp add: addMeasure_def)
qed

lemma addMeasure_single: "c < length xs \<Longrightarrow> addMeasure (Suc c) [y] < addMeasure c xs"
proof -
  assume c: "c < length xs"
  have "pending (Suc c) [y] = {}" by (auto simp: pending_def)
  with c show ?thesis by (simp add: addMeasure_def)
qed

lemma addLoop_step:
  assumes c: "c < length (arrays st loc)"
    and res: "addPageLabels srv p [arrays st loc ! c] st = (r, p1, st1)"
  shows "addMeasure (Suc c) (arrays st1 loc) < addMeasure c (arrays st loc)"
  using addPageLabels_arrays[OF res, of loc] c
  by (auto simp: addMeasure_same addMeasure_push addMeasure_single)

text \<open>The loop over \<open>arrLocalLabels\<close>, from index \<open>c\<close> on.\<close>

function addLoop ::
  "server \<Rightarrow> addr \<Rightarrow> string list \<Rightarrow> nat \<Rightarrow> bool \<Rightarrow> ConfluencePage \<Rightarrow> state
     \<Rightarrow> (error + bool) \<times> ConfluencePage \<times> state" where
  "addLoop srv loc arrRemoteLabels c result2 p st =
     (if c < length (arrays st loc)
      then (if \<not> existsRemote (arrays st loc ! c) arrRemoteLabels
            then (case addPageLabels srv p [arrays st loc ! c] st of
                    (Inl e, p1, st1) \<Rightarrow> (Inl e, p1, st1)
                  | (Inr ok, p1, st1) \<Rightarrow>
                      addLoop srv loc arrRemoteLabels (c + 1)
                        (if \<not> ok then False else result2) p1 st1)
            else addLoop srv loc arrRemoteLabels (c + 1) result2 p st)
      else (Inr result2, p, st))"
  by pat_completeness auto
termination
  by (relation "measure (\<lambda>(srv, loc, rs, c, r, p, st). addMeasure c (arrays st loc))")
     (auto simp: addMeasure_same dest: addLoop_step addLoop_step[OF _ sym])

declare addLoop.simps [simp del]

text \<open>\<open>updatePageLabels\<close>. Everything after the two checks runs inside \<open>try\<close>: an exception
  (a throwing \<open>execute\<close>, a body that does not parse, \<open>results\<close> missing although \<open>size\<close>
  is positive, an exception thrown by \<open>removePageLabel\<close> or \<open>addPageLabels\<close>) ends the
  method with \<open>false\<close>.\<close>

definition updatePageLabels :: "server \<Rightarrow> ConfluencePage \<Rightarrow> state \<Rightarrow> bool result" where
  "updatePageLabels srv p st =
     (if \<not> isValidPageObj p then (Inl (Error ''ConfluenceClient.updatePageLabels''), p, st)
      else if \<not> truthyStr (strId p) then (Inl (Error ''ConfluenceClient.updatePageLabels''), p, st)
      else
        let st1 = setEndpoint (ContentLabel (strOf (strId p))) st;
            st2 = setHttpMethod ''get'' st1
        in case executeRequest srv st2 of
             (NoResponse, st3) \<Rightarrow> (Inr False, p, st3)
           | (Response code b, st3) \<Rightarrow>
               if code \<noteq> 200 then (Inr False, p, st3)
               else if b = NoJson then (Inr False, p, st3)
               else
                 let intSize = (case b of LabelsDoc n rs \<Rightarrow> n | _ \<Rightarrow> 0);
                     arrRemoteLabels =
                       (if intSize > 0 then (case b of LabelsDoc n rs \<Rightarrow> rs | _ \<Rightarrow> None)
                        else Some []);
                     (loc, st4) = (case arrLabels p of
                                     Some a \<Rightarrow> (a, st3)
                                   | None \<Rightarrow> alloc [] st3)
                 in (case arrRemoteLabels of
                       None \<Rightarrow> (Inr False, p, st4)
                     | Some remote \<Rightarrow>
                         (case removeLoop srv loc remote True p st4 of
                            (Inl e, p5, st5) \<Rightarrow> (Inr False, p5, st5)
                          | (Inr result1, p5, st5) \<Rightarrow>
                              (case addLoop srv loc remote 0 True p5 st5 of
                                 (Inl e, p6, st6) \<Rightarrow> (Inr False, p6, st6)
                               | (Inr result2, p6, st6) \<Rightarrow>
                                   (Inr (result1 \<and> result2), p6, st6)))))"


subsection \<open>Removing and updating a page\<close>

definition removePage :: "server \<Rightarrow> ConfluencePage \<Rightarrow> state \<Rightarrow> bool result" where
  "removePage srv p st =
     (if \<not> isValidPageObj p then (Inl (Error ''ConfluenceClient.removePage''), p, st)
      else if \<not> truthyStr (strId p) then (Inl (Error ''ConfluenceClient.removePage''), p, st)
      else if strStatus p = Some ''trashed'' then (Inl (Error ''ConfluenceClient.removePage''), p, st)
      else
        let st1 = setEndpoint (Content (strOf (strId p))) st;
            st2 = setHttpMethod ''delete'' st1;
            st3 = setRequestBody (RawBody ''x'') st2
        in case executeRequest srv st3 of
             (Response code b, st4) \<Rightarrow>
               if code = 200 \<or> code = 204
               then (case setStatus ''trashed'' p of
                       Inr p5 \<Rightarrow> (Inr True, p5, st4)
                     | Inl e \<Rightarrow> (Inr False, p, st4))
               else (Inr False, p, st4)
           | (NoResponse, st4) \<Rightarrow> (Inr False, p, st4))"

text \<open>\<open>ConfluenceClient.updatePageData\<close>. On status 200 the body is parsed, a page is
  constructed from it and its version number is written to \<open>objPage\<close>; an exception on
  the way (no JSON, an object that is no page, no version number) is caught.\<close>

definition updatePageData :: "server \<Rightarrow> ConfluencePage \<Rightarrow> jsval \<Rightarrow> state \<Rightarrow> bool result" where
  "updatePageData srv p suppressNotifications st =
     (if \<not> isValidPageObj p then (Inl (Error ''ConfluenceClient.updatePageData''), p, st)
      else if \<not> (truthyStr (strId p) \<and> truthyNum (intVersionNumber p) \<and>
                  truthyStr (strParentPageId p) \<and> truthyStr (strTitle p) \<and>
                  truthyStr (strSpaceKey p))
        then (Inl (Error ''ConfluenceClient.updatePageData''), p, st)
      else
        let st1 = setEndpoint (Content (strOf (strId p))) st;
            st2 = setHttpMethod ''put'' st1
        in case stringify p (JBool False) suppressNotifications of
             Inl e \<Rightarrow> (Inr False, p, st2)
           | Inr pl \<Rightarrow>
               (case executeRequest srv (setRequestBody (PagePayload pl) st2) of
                  (Response code b, st4) \<Rightarrow>
                    if code = 200
                    then (case b of
                            PageDoc j \<Rightarrow>
                              (case initialize j st4 of
                                 (Inl e, st5) \<Rightarrow> (Inr False, p, st5)
                               | (Inr objReturnedPage, st5) \<Rightarrow>
                                   (case intVersionNumber objReturnedPage of
                                      None \<Rightarrow> (Inr False, p, st5)
                                    | Some v \<Rightarrow>
                                        (case setVersionNumber v p of
                                           Inl e \<Rightarrow> (Inr False, p, st5)
                                         | Inr p6 \<Rightarrow> (Inr True, p6, st5))))
                          | _ \<Rightarrow> (Inr False, p, st4))
                    else (Inr False, p, st4)
                | (NoResponse, st4) \<Rightarrow> (Inr False, p, st4)))"

definition updateScaffoldingData :: "server \<Rightarrow> ConfluencePage \<Rightarrow> state \<Rightarrow> bool result" where
  "updateScaffoldingData srv p st =
     (if \<not> isValidPageObj p then (Inl (Error ''ConfluenceClient.updateScaffoldingData''), p, st)
      else if \<not> truthyStr (strId p)
        then (Inl (Error ''ConfluenceClient.updateScaffoldingData''), p, st)
      else case arrScaffoldingData p of
             None \<Rightarrow> (Inl (Error ''ConfluenceClient.updateScaffoldingData''), p, st)
           | Some d \<Rightarrow>
               let st1 = setEndpoint (ScaffoldingForm (strOf (strId p))) st;
                   st2 = setHttpMethod ''put'' st1;
                   st3 = setRequestBody (ScaffoldingPayload d) st2
               in (case executeRequest srv st3 of
                     (Response code b, st4) \<Rightarrow>
                       if code = 200
                       then (case increaseVersionNumber p of
                               Inr p5 \<Rightarrow> (Inr True, p5, st4)
                             | Inl e \<Rightarrow> (Inr False, p, st4))
                       else if code = 304 then (Inr True, p, st4)
                       else (Inr False, p, st4)
                   | (NoResponse, st4) \<Rightarrow> (Inr False, p, st4)))"

subsection \<open>The save methods of the page\<close>

text \<open>\<open>ConfluencePage.updatePageData\<close>, \<open>updatePageLabels\<close>, \<open>updateScaffoldingData\<close> and
  \<open>update\<close>; they call the client the page refers to, whose state is \<open>st\<close>.\<close>

definition page_updatePageData :: "server \<Rightarrow> ConfluencePage \<Rightarrow> jsval \<Rightarrow> state \<Rightarrow> bool result" where
  "page_updatePageData srv p suppressNotifications st =
     (if hasBodyChanged p \<or> hasParentPageIdChanged p \<or> hasSpaceKeyChanged p \<or> hasTitleChanged p
      then updatePageData srv p suppressNotifications st
      else (Inr True, p, st))"

definition page_updatePageLabels :: "server \<Rightarrow> ConfluencePage \<Rightarrow> state \<Rightarrow> bool result" where
  "page_updatePageLabels srv p st =
     (if haveLabelsChanged p then updatePageLabels srv p st else (Inr True, p, st))"

definition page_updateScaffoldingData :: "server \<Rightarrow> ConfluencePage \<Rightarrow> state \<Rightarrow> bool result" where
  "page_updateScaffoldingData srv p st =
     (if hasScaffoldingDataChanged p then updateScaffoldingData srv p st else (Inr True, p, st))"

text \<open>\<open>a && b && c\<close>: the next operand is evaluated only when the one before is \<open>true\<close>.\<close>

definition page_update :: "server \<Rightarrow> ConfluencePage \<Rightarrow> jsval \<Rightarrow> state \<Rightarrow> bool result" where
  "page_update srv p suppressNotifications st =
     (case page_updatePageData srv p suppressNotifications st of
        (Inl e, p1, st1) \<Rightarrow> (Inl e, p1, st1)
      | (Inr r1, p1, st1) \<Rightarrow>
          if \<not> r1 then (Inr False, p1, st1)
          else (case page_updatePageLabels srv p1 st1 of
                  (Inl e, p2, st2) \<Rightarrow> (Inl e, p2, st2)
                | (Inr r2, p2, st2) \<Rightarrow>
                    if \<not> r2 then (Inr False, p2, st2)
                    else page_updateScaffoldingData srv p2 st2))"

subsection \<open>searchPages\<close>

text \<open>The loop \<open>for (i < intSize) arrPages.push(new ConfluencePage(this, results[i]))\<close>.\<close>

fun newPages :: "page_json list \<Rightarrow> state \<Rightarrow> (error + ConfluencePage list) \<times> state" where
  "newPages [] st = (Inr [], st)"
| "newPages (j # js) st =
     (case initialize j st of
        (Inl e, st1) \<Rightarrow> (Inl e, st1)
      | (Inr p, st1) \<Rightarrow>
          (case newPages js st1 of
             (Inl e, st2) \<Rightarrow> (Inl e, st2)
           | (Inr ps, st2) \<Rightarrow> (Inr (p # ps), st2)))"

text \<open>
  The \<open>while (true)\<close> loop of \<open>searchPages\<close>. It ends with the array of pages when a
  response holds no results and with \<open>null\<close> (\<open>None\<close>) on another status than 200 or on
  an exception; a server that always has results keeps it running, and then the loop
  has no value. \<open>intStartAt\<close> is the sum of the lengths of the result arrays received,
  which is the length of \<open>arrPages\<close>; the length of an array is below \<open>2 ^ 32\<close>, so the
  addition is exact and the offset is a natural number.
\<close>

partial_function (option) searchLoop ::
  "server \<Rightarrow> string \<Rightarrow> jsval \<Rightarrow> nat \<Rightarrow> ConfluencePage list \<Rightarrow> state
     \<Rightarrow> (ConfluencePage list option \<times> state) option" where
  "searchLoop srv strFinalCQL includeContent intStartAt arrPages st =
     (case executeRequest srv
             (setEndpoint
                (ContentSearch intStartAt strFinalCQL (getCommonExpansions includeContent))
                (setHttpMethod ''get'' st)) of
        (NoResponse, st3) \<Rightarrow> Some (None, st3)
      | (Response code b, st3) \<Rightarrow>
          if code = 200
          then (case b of
                  ResultsDoc (Some results) \<Rightarrow>
                    if length results = 0 then Some (Some arrPages, st3)
                    else (case newPages results st3 of
                            (Inl e, st4) \<Rightarrow> Some (None, st4)
                          | (Inr ps, st4) \<Rightarrow>
                              searchLoop srv strFinalCQL includeContent
                                (intStartAt + length results) (arrPages @ ps) st4)
                | _ \<Rightarrow> Some (None, st3))
          else Some (None, st3))"

text \<open>The query sent: the trimmed CQL, restricted to pages unless the CQL names the
  type already.\<close>

definition finalCQL :: "string \<Rightarrow> string" where
  "finalCQL strCQL =
     (if \<not> containsStr ''type=page'' (toLowerCase strCQL)
      then trim strCQL @ '' AND type=page''
      else trim strCQL)"

text \<open>\<open>searchPages\<close>: \<open>None\<close> when the loop does not end, otherwise the exception thrown
  for an unusable query, or the value returned (\<open>None\<close> for \<open>null\<close>), and the state.\<close>

definition searchPages ::
  "server \<Rightarrow> string \<Rightarrow> jsval \<Rightarrow> state
     \<Rightarrow> ((error + ConfluencePage list option) \<times> state) option" where
  "searchPages srv strCQL includeContent st =
     (if \<not> (length (trim strCQL) > 5) then Some (Inl (Error ''ConfluenceClient.searchPages''), st)
      else map_option (\<lambda>(r, st1). (Inr r, st1))
             (searchLoop srv (finalCQL strCQL) includeContent 0 [] st))"

section \<open>Example values\<close>

text \<open>Sequencing of calls that may throw.\<close>

definition bindE :: "error + 'a \<Rightarrow> ('a \<Rightarrow> error + 'b) \<Rightarrow> error + 'b" where
  "bindE r f = (case r of Inl e \<Rightarrow> Inl e | Inr x \<Rightarrow> f x)"

text \<open>The entries of the Scaffolding array, none when the array is \<open>undefined\<close>.\<close>

definition scaffoldingEntries :: "'a page_data_scheme \<Rightarrow> (string \<times> jsval) list" where
  "scaffoldingEntries p = (case arrScaffoldingData p of None \<Rightarrow> [] | Some d \<Rightarrow> d)"

text \<open>A client that has not sent anything yet, with an empty store.\<close>

definition exampleState :: state where
  "exampleState =
     \<lparr>arrays = (\<lambda>a. []), next_addr = 0, clientInternalId = ''1604390400000session'',
      restEndpoint = None, restMethod = None, restBody = None, sent = []\<rparr>"

text \<open>The JSON of page 100, titled Draft, version 5, labels a and b, below page 99.\<close>

definition exampleParentJson :: page_json where
  "exampleParentJson =
     PageJson (Some ''99'') (Some ''current'') (Some ''Home'') (Some (Some ''tst''))
       (Some (Some 2)) (Some None) (Some None)
       (Some (Some [])) (Some (Some [])) (Some (Some [])) (Some (Some []))
       (Some \<lparr>lu_by = None, lu_when = None\<rparr>) (Some (Some [])) (Some [])"

definition exampleJson :: page_json where
  "exampleJson =
     PageJson (Some ''100'') (Some ''current'') (Some ''Draft'') (Some (Some ''tst''))
       (Some (Some 5)) (Some (Some ''<p>text</p>'')) (Some (Some ''<html/>''))
       (Some (Some [])) (Some (Some [])) (Some (Some [])) (Some (Some []))
       (Some \<lparr>lu_by = Some (Some ''maik'', Some ''Maik''), lu_when = Some ''2020-07-24T10:00:00''\<rparr>)
       (Some (Some [''a'', ''b''])) (Some [exampleParentJson])"

text \<open>The page \<open>initialize\<close> builds from it: its label array is at address 0.\<close>

definition examplePage :: ConfluencePage where
  "examplePage =
     \<lparr>refInternalId = ''1604390400000session'', strInternalId = ''1604390400000session'',
      strId = Some ''100'', strStatus = Some ''current'', strTitle = Some ''Draft'',
      strSpaceKey = Some ''tst'', intVersionNumber = Some 5, strBody = Some ''<p>text</p>'',
      renderedHTML = Some ''<html/>'',
      userReadingRestrictions = Some [], groupReadingRestrictions = Some [],
      userUpdatingRestrictions = Some [], groupUpdatingRestrictions = Some [],
      strModifierUserName = Some ''maik'', strModifierDisplayName = Some ''Maik'',
      gdtModification = Some ''2020-07-24T10:00:00'', arrLabels = Some 0,
      strParentPageId = Some ''99'', arrScaffoldingData = None,
      hasTitleChanged = False, hasSpaceKeyChanged = False, hasBodyChanged = False,
      hasScaffoldingDataChanged = False, hasParentPageIdChanged = False,
      haveLabelsChanged = False,
      arrAncestors = Some [asAncestor (barePage exampleState
          \<lparr>strId := Some ''99'', strStatus := Some ''current'', strTitle := Some ''Home'',
           strSpaceKey := Some ''tst'', intVersionNumber := Some 2,
           userReadingRestrictions := Some [], groupReadingRestrictions := Some [],
           userUpdatingRestrictions := Some [], groupUpdatingRestrictions := Some []\<rparr>)]\<rparr>"

text \<open>The example page after its title has been changed and a Scaffolding field has been
  set; the same page with only the Scaffolding field set; and with only a label flag.\<close>

definition editedPage :: ConfluencePage where
  "editedPage =
     examplePage\<lparr>strTitle := Some ''Final'', hasTitleChanged := True,
                  arrScaffoldingData := Some [(''status'', JStr ''open'')],
                  hasScaffoldingDataChanged := True\<rparr>"

definition formPage :: ConfluencePage where
  "formPage =
     examplePage\<lparr>arrScaffoldingData := Some [(''status'', JStr ''open'')],
                  hasScaffoldingDataChanged := True\<rparr>"

definition labelledPage :: ConfluencePage where
  "labelledPage = formPage\<lparr>haveLabelsChanged := True\<rparr>"

text \<open>The example page after \<open>setTitle("Final")\<close> and \<open>addLabel("c")\<close>, and the JSON the
  server returns when that page has been saved: the new title, version 6, and the labels
  a and b, which are all the server has.\<close>

definition pendingPage :: ConfluencePage where
  "pendingPage =
     examplePage\<lparr>strTitle := Some ''Final'', hasTitleChanged := True, haveLabelsChanged := True\<rparr>"

definition savedJson :: page_json where
  "savedJson =
     PageJson (Some ''100'') (Some ''current'') (Some ''Final'') (Some (Some ''tst''))
       (Some (Some 6)) (Some (Some ''<p>text</p>'')) (Some (Some ''<html/>''))
       (Some (Some [])) (Some (Some [])) (Some (Some [])) (Some (Some []))
       (Some \<lparr>lu_by = Some (Some ''maik'', Some ''Maik''), lu_when = Some ''2020-07-24T10:05:00''\<rparr>)
       (Some (Some [''a'', ''b''])) (Some [exampleParentJson])"

section \<open>Requests, replies and servers used in the statements\<close>

text \<open>The requests the methods configure, as the \<open>RESTMessageV2\<close> object holds them when
  \<open>execute\<close> is called. A GET request carries whatever body an earlier request left.\<close>

definition removeRequest :: "ConfluencePage \<Rightarrow> request" where
  "removeRequest p =
     \<lparr>req_method = Some ''delete'', req_endpoint = Some (Content (strOf (strId p))),
      req_body = Some (RawBody ''x'')\<rparr>"

definition labelsRequest :: "state \<Rightarrow> ConfluencePage \<Rightarrow> request" where
  "labelsRequest st p =
     \<lparr>req_method = Some ''get'', req_endpoint = Some (ContentLabel (strOf (strId p))),
      req_body = restBody st\<rparr>"

definition removeLabelRequest :: "ConfluencePage \<Rightarrow> string \<Rightarrow> request" where
  "removeLabelRequest p n =
     \<lparr>req_method = Some ''delete'',
      req_endpoint = Some (ContentLabelName (strOf (strId p)) n),
      req_body = Some (RawBody ''x'')\<rparr>"

definition addLabelsRequest :: "ConfluencePage \<Rightarrow> string list \<Rightarrow> request" where
  "addLabelsRequest p ns =
     \<lparr>req_method = Some ''post'', req_endpoint = Some (ContentLabel (strOf (strId p))),
      req_body = Some (LabelObjects (map (\<lambda>n. (''global'', n)) ns))\<rparr>"

definition searchRequest :: "payload option \<Rightarrow> string \<Rightarrow> jsval \<Rightarrow> nat \<Rightarrow> request" where
  "searchRequest body cql inc start =
     \<lparr>req_method = Some ''get'',
      req_endpoint = Some (ContentSearch start cql (getCommonExpansions inc)),
      req_body = body\<rparr>"

text \<open>The status code of a reply, none for a throwing \<open>execute\<close>.\<close>

definition statusOf :: "reply \<Rightarrow> int option" where
  "statusOf r = (case r of Response code b \<Rightarrow> Some code | NoResponse \<Rightarrow> None)"

text \<open>The state after a request has been configured and executed.\<close>

definition stateAfter :: "request \<Rightarrow> state \<Rightarrow> state" where
  "stateAfter req st =
     st\<lparr>restEndpoint := req_endpoint req, restMethod := req_method req,
        restBody := req_body req, sent := sent st @ [req]\<rparr>"

text \<open>A JSON object of a page on which \<open>initialize\<close> does not throw: every chain of
  properties it follows exists, and when there are ancestors the last one has a valid
  id and all of them are such objects themselves.\<close>

fun wellFormedJson :: "page_json \<Rightarrow> bool" where
  "wellFormedJson (PageJson i s t k v b h ru rg uu ug lu ls ancs) =
     (k \<noteq> None \<and> v \<noteq> None \<and> b \<noteq> None \<and> h \<noteq> None \<and> ru \<noteq> None \<and> rg \<noteq> None \<and> uu \<noteq> None
      \<and> ug \<noteq> None \<and> lu \<noteq> None \<and> ls \<noteq> None
      \<and> (case ancs of
            None \<Rightarrow> True
          | Some [] \<Rightarrow> True
          | Some (a # as) \<Rightarrow>
              (case j_id (last (a # as)) of None \<Rightarrow> False | Some x \<Rightarrow> isValidInteger x)
              \<and> (\<forall>j \<in> set (a # as). wellFormedJson j)))"

text \<open>Two states that differ in the store only.\<close>

definition sameClient :: "state \<Rightarrow> state \<Rightarrow> bool" where
  "sameClient st st' =
     (sent st' = sent st \<and> restEndpoint st' = restEndpoint st \<and> restMethod st' = restMethod st
      \<and> restBody st' = restBody st \<and> clientInternalId st' = clientInternalId st)"

text \<open>
  \<open>servesPages srv hist mk start rss\<close>: asked with the requests \<open>mk\<close> builds, starting at
  offset \<open>start\<close> after the history \<open>hist\<close>, the server answers with status 200 and the
  non-empty result lists \<open>rss\<close> one after the other, each at the offset the lists before
  it add up to, and then with an empty result list. \<open>offsets\<close> are those offsets.
\<close>

fun servesPages :: "server \<Rightarrow> request list \<Rightarrow> (nat \<Rightarrow> request) \<Rightarrow> nat \<Rightarrow> page_json list list \<Rightarrow> bool" where
  "servesPages srv hist mk start [] = (srv hist (mk start) = Response 200 (ResultsDoc (Some [])))"
| "servesPages srv hist mk start (rs # rss) =
     (rs \<noteq> [] \<and> srv hist (mk start) = Response 200 (ResultsDoc (Some rs))
      \<and> servesPages srv (hist @ [mk start]) mk (start + length rs) rss)"

fun offsets :: "nat \<Rightarrow> page_json list list \<Rightarrow> nat list" where
  "offsets start [] = [start]"
| "offsets start (rs # rss) = start # offsets (start + length rs) rss"

text \<open>
  \<open>outcomes srv hist es\<close>: the requests of \<open>es\<close> are executed one after the other after
  the history \<open>hist\<close>; each is paired with the status code that counts as its success,
  and the list tells for each whether the reply had that status.
\<close>

fun outcomes :: "server \<Rightarrow> request list \<Rightarrow> (request \<times> int) list \<Rightarrow> bool list" where
  "outcomes srv hist [] = []"
| "outcomes srv hist (e # es) =
     (statusOf (srv hist (fst e)) = Some (snd e)) # outcomes srv (hist @ [fst e]) es"

text \<open>What \<open>updatePageLabels\<close> requests after the listing when names are compared as they
  are stored: a removal, successful with status 204, for every name of the server that
  is not among the names of the page, then an addition, successful with status 200,
  for every name of the page that is not among the names of the server.\<close>

definition reconciliation :: "ConfluencePage \<Rightarrow> string list \<Rightarrow> string list \<Rightarrow> (request \<times> int) list" where
  "reconciliation p local remote =
     map (\<lambda>r. (removeLabelRequest p r, 204)) (filter (\<lambda>r. r \<notin> set local) remote)
     @ map (\<lambda>l. (addLabelsRequest p [l], 200)) (filter (\<lambda>l. l \<notin> set remote) local)"

text \<open>\<open>objPage.getLabels() || []\<close>: the label names the page holds, none when it has no
  label array. \<open>labelsAllocated\<close>: the label array of the page, if it has one, is an array
  of the store.\<close>

definition localLabels :: "ConfluencePage \<Rightarrow> state \<Rightarrow> string list" where
  "localLabels p st = (case arrLabels p of None \<Rightarrow> [] | Some a \<Rightarrow> arrays st a)"

definition labelsAllocated :: "ConfluencePage \<Rightarrow> state \<Rightarrow> bool" where
  "labelsAllocated p st = (case arrLabels p of None \<Rightarrow> True | Some a \<Rightarrow> a < next_addr st)"

text \<open>What the loops of \<open>updatePageLabels\<close> keep unchanged: the page is valid and has the
  id \<open>i\<close>, and the array at \<open>loc\<close> holds the names \<open>local\<close>.\<close>

definition reconcileInv :: "addr \<Rightarrow> string list \<Rightarrow> string option \<Rightarrow> ConfluencePage \<Rightarrow> state \<Rightarrow> bool" where
  "reconcileInv loc local i p st =
     (isValidPageObj p \<and> truthyStr (strId p) \<and> strId p = i \<and> arrays st loc = local
      \<and> loc < next_addr st)"

text \<open>Servers for the examples: one that answers everything with the same status code,
  one that lists the given labels and answers removals and additions with given
  status codes, one that answers the n-th request with the n-th result list.\<close>

definition constServer :: "int \<Rightarrow> server" where
  "constServer code hist req = Response code OtherDoc"

definition labelServer :: "string list \<Rightarrow> int \<Rightarrow> int \<Rightarrow> server" where
  "labelServer remote removeCode addCode hist req =
     (if req_method req = Some ''get''
      then Response 200 (LabelsDoc (length remote) (Some remote))
      else if req_method req = Some ''delete'' then Response removeCode OtherDoc
      else Response addCode OtherDoc)"

definition pagedServer :: "page_json list list \<Rightarrow> server" where
  "pagedServer rss hist req =
     (case drop (length hist) rss of
        rs # rest \<Rightarrow> Response 200 (ResultsDoc (Some rs))
      | [] \<Rightarrow> Response 200 (ResultsDoc (Some [])))"

text \<open>A server that answers a PUT with status 200 and the given page, and any other
  request like \<open>labelServer\<close> with successful removals and additions.\<close>

definition savingServer :: "page_json \<Rightarrow> string list \<Rightarrow> server" where
  "savingServer j remote hist req =
     (if req_method req = Some ''put'' then Response 200 (PageDoc j)
      else labelServer remote 204 200 hist req)"

text \<open>The example client with one label array in its store, at address 0.\<close>

definition labelledState :: "string list \<Rightarrow> state" where
  "labelledState ls = exampleState\<lparr>arrays := (\<lambda>a. [])(0 := ls), next_addr := 1\<rparr>"


section \<open>Properties of the page\<close>

text \<open>The no-break space is white space for \<open>trim\<close>, and \<open>toLowerCase\<close> reaches the
  letters beyond ASCII (U+00C4 to U+00E4).\<close>

lemma trim_no_break_space:
  "trim [CHR 0xA0, CHR 0xA0, CHR ''a'', CHR ''b'', CHR ''='', CHR ''1'', CHR 0xA0] = ''ab=1''"
  by (simp add: trim_def isWhiteSpace_def)

lemma toLowerCase_latin1: "toLowerCase [CHR 0xC4, CHR ''B''] = [CHR 0xE4, CHR ''b'']"
  by (simp add: toLowerCase_def lowerChar_def isUpperLatin1_def char_of_def bit_Suc_0_iff)





lemma valid_a: "isValidLabelName ''a''" "isValidLabelName ''b''" "isValidLabelName ''c''"
  by (simp_all add: isValidLabelName_def isLabelChar_def isDigit_def isLowerLetter_def isUpperLetter_def)

lemma norm_a: "normalizeLabel ''a'' = ''a''" "normalizeLabel ''c'' = ''c''"
  by (simp_all add: normalizeLabel_def toLowerCase_def lowerChar_def isUpperLatin1_def
      trim_def isWhiteSpace_def)

lemma initialize_exampleJson: "fst (initialize exampleJson exampleState) = Inr examplePage"
  by (simp add: exampleJson_def exampleParentJson_def exampleState_def examplePage_def
      readFields_def readLabels_def readParent_def setParentPageId_def isValidInteger_def
      isDigit_def barePage_def clearFlags_def alloc_def truthyStr_def asAncestor_def
      page_data.truncate_def)

subsection \<open>setVersionNumber and the dirty flags\<close>

text \<open>
  What \<open>setVersionNumber\<close> does to the flags. For every page and every valid version
  number \<open>v\<close> that differs from the current one, \<open>setVersionNumber(v)\<close> stores \<open>v\<close> and clears
  the dirty flags of title, space key, parent page, body and also of the labels; only
  the flag of the Scaffolding data keeps its value.
\<close>

lemma setVersionNumber_flags:
  assumes "isValidIntegerNum v" and "intVersionNumber p \<noteq> Some v"
  shows "\<exists>p'. setVersionNumber v p = Inr p' \<and> intVersionNumber p' = Some v
           \<and> \<not> hasTitleChanged p' \<and> \<not> hasSpaceKeyChanged p' \<and> \<not> hasParentPageIdChanged p'
           \<and> \<not> hasBodyChanged p' \<and> \<not> haveLabelsChanged p'
           \<and> hasScaffoldingDataChanged p' = hasScaffoldingDataChanged p"
  using assms by (simp add: setVersionNumber_def)

lemma initialize_savedJson:
  "map_sum id intVersionNumber (fst (initialize savedJson st)) = Inr (Some 6)"
  "sent (snd (initialize savedJson st)) = sent st"
  "arrays (snd (initialize savedJson st)) a = (if a = next_addr st then [''a'', ''b''] else arrays st a)"
  by (simp_all add: savedJson_def exampleParentJson_def readFields_def readLabels_def
      readParent_def setParentPageId_def isValidInteger_def isDigit_def barePage_def
      clearFlags_def alloc_def truthyStr_def asAncestor_def page_data.truncate_def)

text \<open>
  C3, at the input where the code departs from it. The example page, at version 5 with
  the labels a and b, gets a new title and the label c: both the title flag and the
  label flag are set. On that page \<open>setVersionNumber(6)\<close> clears the label flag, which the
  claim says it leaves unchanged. The flag is what \<open>updatePageLabels\<close> of the page goes
  by, so the change of the labels is lost when the page is saved: \<open>update\<close> sends the PUT
  of the page data, the server answers with version 6, \<open>updatePageData\<close> passes that
  version to \<open>setVersionNumber\<close>, and the save of the labels that follows sends nothing.
  \<open>update\<close> returns \<open>true\<close> after this one request, with the label flag cleared, while
  the page holds the labels a, b and c and the server the labels a and b.
\<close>

theorem setVersionNumber_clears_label_flag:
  "bindE (setTitle ''Final'' examplePage) (\<lambda>p. addLabel ''c'' p (labelledState [''a'', ''b'']))
     = Inr (pendingPage, labelledState [''a'', ''b'', ''c''])
   \<and> haveLabelsChanged pendingPage
   \<and> intVersionNumber pendingPage = Some 5
   \<and> map_sum id haveLabelsChanged (setVersionNumber 6 pendingPage) = Inr False
   \<and> fst (page_update (savingServer savedJson [''a'', ''b'']) pendingPage JUndefined
             (labelledState [''a'', ''b'', ''c''])) = Inr True
   \<and> map req_method
         (sent (snd (snd (page_update (savingServer savedJson [''a'', ''b'']) pendingPage JUndefined
                            (labelledState [''a'', ''b'', ''c'']))))) = [Some ''put'']
   \<and> haveLabelsChanged
         (fst (snd (page_update (savingServer savedJson [''a'', ''b'']) pendingPage JUndefined
                      (labelledState [''a'', ''b'', ''c''])))) = False
   \<and> localLabels
         (fst (snd (page_update (savingServer savedJson [''a'', ''b'']) pendingPage JUndefined
                      (labelledState [''a'', ''b'', ''c'']))))
         (snd (snd (page_update (savingServer savedJson [''a'', ''b'']) pendingPage JUndefined
                      (labelledState [''a'', ''b'', ''c''])))) = [''a'', ''b'', ''c'']"
proof -
  let ?st = "labelledState [''a'', ''b'', ''c'']"
  let ?srv = "savingServer savedJson [''a'', ''b'']"
  let ?pl = "\<lparr>pl_id = Some ''100'',
              pl_version = Some \<lparr>number = JNum (roundDouble (5 + 1)), minorEdit = False\<rparr>,
              pl_type = Some ''page'', pl_title = Some ''Final'', pl_space_key = Some (Some ''tst''),
              pl_body_storage = Some (''<p>text</p>'', ''storage''),
              pl_ancestors = Some [''99'']\<rparr>"
  let ?st4 = "?st\<lparr>restEndpoint := Some (Content ''100''), restMethod := Some ''put'',
                  restBody := Some (PagePayload ?pl),
                  sent := [\<lparr>req_method = Some ''put'', req_endpoint = Some (Content ''100''),
                             req_body = Some (PagePayload ?pl)\<rparr>]\<rparr>"
  let ?p6 = "pendingPage\<lparr>hasTitleChanged := False, hasSpaceKeyChanged := False,
                hasParentPageIdChanged := False, hasBodyChanged := False,
                haveLabelsChanged := False, intVersionNumber := Some 6\<rparr>"
  have setters: "bindE (setTitle ''Final'' examplePage)
                   (\<lambda>p. addLabel ''c'' p (labelledState [''a'', ''b'']))
                 = Inr (pendingPage, ?st)"
    by (simp add: bindE_def setTitle_def addLabel_def valid_a norm_a examplePage_def
        pendingPage_def labelledState_def push_def)
  have flags: "haveLabelsChanged pendingPage" "intVersionNumber pendingPage = Some 5"
    by (simp_all add: pendingPage_def examplePage_def)
  have sv: "setVersionNumber 6 pendingPage = Inr ?p6"
    by (simp add: setVersionNumber_def isValidIntegerNum_def flags Let_def)
  have defs: "truthyStr (Some ''100'')" "truthyStr (Some ''99'')" "truthyStr (Some ''Final'')"
    "truthyStr (Some ''tst'')" "truthyStr (Some ''<p>text</p>'')" "truthyNum (Some 5)"
    by (simp_all add: truthyStr_def truthyNum_def)
  have str: "stringify pendingPage (JBool False) JUndefined = Inr ?pl"
    by (simp add: stringify_def emptyPayload_def isBooleanTrue_def pendingPage_def
        examplePage_def defs Let_def)
  have ex: "executeRequest ?srv
              (setRequestBody (PagePayload ?pl)
                 (setHttpMethod ''put'' (setEndpoint (Content ''100'') ?st)))
            = (Response 200 (PageDoc savedJson), ?st4)"
    by (simp add: executeRequest_def currentRequest_def setEndpoint_def setHttpMethod_def
        setRequestBody_def savingServer_def labelledState_def exampleState_def)
  obtain q st5 where ini: "initialize savedJson ?st4 = (q, st5)" by (cases "initialize savedJson ?st4")
  from initialize_savedJson[of ?st4] ini
  have q: "map_sum id intVersionNumber q = Inr (Some 6)" and s5: "sent st5 = sent ?st4"
    and a5: "arrays st5 0 = [''a'', ''b'', ''c'']"
    by (simp_all add: labelledState_def exampleState_def)
  from q obtain q' where q': "q = Inr q'" "intVersionNumber q' = Some 6" by (cases q) auto
  have upd: "updatePageData ?srv pendingPage JUndefined ?st = (Inr True, ?p6, st5)"
    using str ex ini q' sv
    by (simp add: updatePageData_def isValidPageObj_def isValid_def pendingPage_def
        examplePage_def defs strOf_def Let_def)
  have "page_update ?srv pendingPage JUndefined ?st = (Inr True, ?p6, st5)"
    using upd
    by (simp add: page_update_def page_updatePageData_def page_updatePageLabels_def
        page_updateScaffoldingData_def pendingPage_def examplePage_def)
  then show ?thesis
    using setters flags sv s5 a5
    by (simp add: localLabels_def pendingPage_def examplePage_def)
qed

subsection \<open>Setters and the dirty flags\<close>

text \<open>
  C4, at the input where the code departs from it. The page is constructed from a
  response whose title is Draft; \<open>setTitle("Final")\<close> is called twice. After the second
  call the title flag is \<open>false\<close> although the title is Final and not the title of the
  server: the setter compares with the value it is about to replace, not with the
  value of the last synchronisation.
\<close>

theorem setTitle_twice_clears_flag:
  "map_sum id (\<lambda>p. (hasTitleChanged p, strTitle p))
     (bindE (bindE (fst (initialize exampleJson exampleState)) (setTitle ''Final''))
        (setTitle ''Final''))
   = Inr (False, Some ''Final'')
   \<and> j_title exampleJson = Some ''Draft''"
proof -
  have "j_title exampleJson = Some ''Draft''" by (simp add: exampleJson_def)
  moreover have "map_sum id (\<lambda>p. (hasTitleChanged p, strTitle p))
     (bindE (bindE (fst (initialize exampleJson exampleState)) (setTitle ''Final''))
        (setTitle ''Final'')) = Inr (False, Some ''Final'')"
    by (simp add: initialize_exampleJson bindE_def setTitle_def examplePage_def)
  ultimately show ?thesis by simp
qed

subsection \<open>stringify\<close>




text \<open>
  C10. For every page, \<open>stringify(true, true)\<close> throws a \<open>TypeError\<close>: the branch for
  \<open>suppressNotifications\<close> assigns to a property of \<open>objResult.version\<close>, which only the
  update branch creates.
\<close>

theorem stringify_create_suppress_throws:
  "stringify p (JBool True) (JBool True) = Inl TypeError"
  by (simp add: stringify_def emptyPayload_def isBooleanTrue_def)

theorem stringify_create_suppress_throws_witness:
  "stringify examplePage (JBool True) (JBool True) = Inl TypeError"
  by (rule stringify_create_suppress_throws)

subsection \<open>Scaffolding values\<close>

lemma findField_assignField:
  "assignField n v d = Some d' \<Longrightarrow> findField n d' = js_or v (JStr [])"
  by (induction d arbitrary: d') (auto split: if_splits)

lemma assignField_None: "(assignField n v d = None) = (n \<notin> fst ` set d)"
  by (induction d) auto

lemma findField_append_absent:
  "n \<notin> fst ` set d \<Longrightarrow> findField n (d @ [(n, w)]) = w"
  by (induction d) auto

text \<open>
  What the setter stores. For every non-empty field name and every value \<open>v\<close>,
  \<open>setScaffoldingValue(name, v)\<close> followed by \<open>getScaffoldingValue(name)\<close> returns \<open>v\<close>
  when \<open>v\<close> is truthy and the empty string when \<open>v\<close> is falsy (\<open>undefined\<close>, \<open>null\<close>,
  \<open>false\<close>, \<open>0\<close>, \<open>NaN\<close>, the empty string); the call sets the dirty flag of the
  Scaffolding data, and when no entry has that name it appends a new entry.
\<close>

lemma setScaffoldingValue_get:
  assumes "n \<noteq> []"
  shows "\<exists>p'. setScaffoldingValue n v p = Inr p'
           \<and> getScaffoldingValue n p' = Inr (if truthy v then v else JStr [])
           \<and> hasScaffoldingDataChanged p'
           \<and> (n \<notin> fst ` set (scaffoldingEntries p) \<longrightarrow>
                arrScaffoldingData p' =
                  Some (scaffoldingEntries p @ [(n, if truthy v then v else JStr [])]))"
proof (cases "arrScaffoldingData p")
  case None
  with assms show ?thesis
    by (simp add: setScaffoldingValue_def getScaffoldingValue_def scaffoldingEntries_def js_or_def)
next
  case (Some d)
  show ?thesis
  proof (cases "assignField n v d")
    case None
    then have "n \<notin> fst ` set d" by (simp add: assignField_None)
    with assms Some None show ?thesis
      by (simp add: setScaffoldingValue_def getScaffoldingValue_def scaffoldingEntries_def
          findField_append_absent js_or_def)
  next
    case (Some d')
    then have "n \<in> fst ` set d" using assignField_None[of n v d] by auto
    with assms \<open>arrScaffoldingData p = Some d\<close> Some show ?thesis
      by (simp add: setScaffoldingValue_def getScaffoldingValue_def scaffoldingEntries_def
          findField_assignField js_or_def)
  qed
qed

text \<open>
  C9, at the input where the code departs from it. The values \<open>0\<close> and \<open>false\<close> are not
  nullish, so after \<open>setScaffoldingValue("count", 0)\<close> the getter is to return \<open>0\<close>, and
  \<open>false\<close> after \<open>setScaffoldingValue("done", false)\<close>. The setter stores
  \<open>objFieldValue || ""\<close>, which replaces every falsy value: the getter returns the empty
  string in both cases, for a field that is new (the example page has no Scaffolding
  data) and for a field that exists (\<open>formPage\<close> has the field \<open>status\<close>). A nullish value
  is replaced by the empty string and a truthy one is stored as it is, as the claim
  says.
\<close>

theorem setScaffoldingValue_drops_falsy_value:
  "\<not> nullish (JNum 0) \<and> \<not> nullish (JBool False)
   \<and> bindE (setScaffoldingValue ''count'' (JNum 0) examplePage) (getScaffoldingValue ''count'')
       = Inr (JStr [])
   \<and> bindE (setScaffoldingValue ''done'' (JBool False) examplePage) (getScaffoldingValue ''done'')
       = Inr (JStr [])
   \<and> bindE (setScaffoldingValue ''status'' (JNum 0) formPage) (getScaffoldingValue ''status'')
       = Inr (JStr [])
   \<and> JStr [] \<noteq> JNum 0 \<and> JStr [] \<noteq> JBool False
   \<and> bindE (setScaffoldingValue ''count'' JNull examplePage) (getScaffoldingValue ''count'')
       = Inr (JStr [])
   \<and> bindE (setScaffoldingValue ''count'' (JNum 7) examplePage) (getScaffoldingValue ''count'')
       = Inr (JNum 7)"
  by (simp add: bindE_def setScaffoldingValue_def getScaffoldingValue_def examplePage_def
      formPage_def js_or_def)


section \<open>Properties of the client\<close>

subsection \<open>removePage\<close>

text \<open>
  C7. For a page whose status is trashed, \<open>removePage\<close> throws and leaves page and state
  as they were, so no request has been executed. For a valid page with an id whose
  status is not trashed it executes exactly the DELETE request for the page; when the
  reply has status 200 or 204 it returns \<open>true\<close> and the status of the page is trashed,
  and with any other reply (another status, or none because \<open>execute\<close> threw) it
  returns \<open>false\<close> and the page is unchanged.
\<close>

theorem removePage_trashed_and_status:
  "(strStatus p = Some ''trashed'' \<longrightarrow> (\<exists>e. removePage srv p st = (Inl e, p, st)))
   \<and> (isValidPageObj p \<and> truthyStr (strId p) \<and> strStatus p \<noteq> Some ''trashed'' \<longrightarrow>
        removePage srv p st =
          (if statusOf (srv (sent st) (removeRequest p)) = Some 200
              \<or> statusOf (srv (sent st) (removeRequest p)) = Some 204
           then (Inr True, p\<lparr>strStatus := Some ''trashed''\<rparr>, stateAfter (removeRequest p) st)
           else (Inr False, p, stateAfter (removeRequest p) st)))"
  by (auto simp: removePage_def removeRequest_def statusOf_def executeRequest_def
      currentRequest_def setEndpoint_def setHttpMethod_def setRequestBody_def setStatus_def
      stateAfter_def Let_def split: reply.splits)

theorem removePage_trashed_and_status_witness:
  "strStatus (examplePage\<lparr>strStatus := Some ''trashed''\<rparr>) = Some ''trashed''
   \<and> fst (removePage (constServer 204) (examplePage\<lparr>strStatus := Some ''trashed''\<rparr>) exampleState)
       = Inl (Error ''ConfluenceClient.removePage'')
   \<and> sent (snd (snd (removePage (constServer 204) (examplePage\<lparr>strStatus := Some ''trashed''\<rparr>)
        exampleState))) = []
   \<and> isValidPageObj examplePage \<and> truthyStr (strId examplePage)
   \<and> strStatus examplePage \<noteq> Some ''trashed''
   \<and> fst (removePage (constServer 204) examplePage exampleState) = Inr True
   \<and> strStatus (fst (snd (removePage (constServer 204) examplePage exampleState))) = Some ''trashed''
   \<and> fst (removePage (constServer 404) examplePage exampleState) = Inr False
   \<and> strStatus (fst (snd (removePage (constServer 404) examplePage exampleState))) = Some ''current''"
  using removePage_trashed_and_status[of "examplePage\<lparr>strStatus := Some ''trashed''\<rparr>" "constServer 204" exampleState]
    removePage_trashed_and_status[of examplePage "constServer 204" exampleState]
    removePage_trashed_and_status[of examplePage "constServer 404" exampleState]
  by (auto simp: examplePage_def exampleState_def constServer_def isValidPageObj_def isValid_def
      truthyStr_def statusOf_def removePage_def stateAfter_def removeRequest_def)

subsection \<open>The save methods of the page\<close>

text \<open>
  C8. For a page none of whose dirty flags is set, \<open>updatePageData\<close>,
  \<open>updatePageLabels\<close>, \<open>updateScaffoldingData\<close> and \<open>update\<close> of the page return \<open>true\<close>
  and leave page and state as they were, so no request has been executed. \<open>update\<close>
  runs the save of the page data first: when that returns \<open>false\<close>, \<open>update\<close> returns
  \<open>false\<close> in the state the first step left; when it returns \<open>true\<close> and the save of
  the labels returns \<open>false\<close>, \<open>update\<close> returns \<open>false\<close> in the state the second step
  left; when both return \<open>true\<close>, \<open>update\<close> is the save of the Scaffolding data.
\<close>

theorem clean_page_saves_nothing_and_update_order:
  "(\<not> hasTitleChanged p \<and> \<not> hasSpaceKeyChanged p \<and> \<not> hasParentPageIdChanged p
      \<and> \<not> hasBodyChanged p \<and> \<not> haveLabelsChanged p \<and> \<not> hasScaffoldingDataChanged p \<longrightarrow>
        page_updatePageData srv p s st = (Inr True, p, st)
      \<and> page_updatePageLabels srv p st = (Inr True, p, st)
      \<and> page_updateScaffoldingData srv p st = (Inr True, p, st)
      \<and> page_update srv p s st = (Inr True, p, st))
   \<and> (page_updatePageData srv p s st = (Inr False, p1, st1) \<longrightarrow>
        page_update srv p s st = (Inr False, p1, st1))
   \<and> (page_updatePageData srv p s st = (Inr True, p1, st1)
        \<and> page_updatePageLabels srv p1 st1 = (Inr False, p2, st2) \<longrightarrow>
        page_update srv p s st = (Inr False, p2, st2))
   \<and> (page_updatePageData srv p s st = (Inr True, p1, st1)
        \<and> page_updatePageLabels srv p1 st1 = (Inr True, p2, st2) \<longrightarrow>
        page_update srv p s st = page_updateScaffoldingData srv p2 st2)"
  by (simp add: page_update_def page_updatePageData_def page_updatePageLabels_def
      page_updateScaffoldingData_def)

theorem clean_page_saves_nothing_and_update_order_witness:
  "page_update (constServer 500) examplePage JUndefined exampleState
     = (Inr True, examplePage, exampleState)
   \<and> fst (page_update (constServer 500) editedPage JUndefined exampleState) = Inr False
   \<and> map req_method (sent (snd (snd (page_update (constServer 500) editedPage JUndefined
                                        exampleState)))) = [Some ''put'']
   \<and> fst (page_update (constServer 500) labelledPage JUndefined exampleState) = Inr False
   \<and> map req_method (sent (snd (snd (page_update (constServer 500) labelledPage JUndefined
                                        exampleState)))) = [Some ''get'']
   \<and> fst (page_update (constServer 304) formPage JUndefined exampleState) = Inr True
   \<and> map req_method (sent (snd (snd (page_update (constServer 304) formPage JUndefined
                                        exampleState)))) = [Some ''put'']"
proof -
  let ?X = "page_updatePageData (constServer 500) editedPage JUndefined exampleState"
  let ?Y = "page_updatePageLabels (constServer 500) labelledPage exampleState"
  let ?Z = "page_updateScaffoldingData (constServer 304) formPage exampleState"
  have defs: "truthyStr (Some ''100'')" "truthyStr (Some ''99'')" "truthyStr (Some ''Final'')"
    "truthyStr (Some ''tst'')" "truthyStr (Some ''<p>text</p>'')" "truthyNum (Some 5)"
    by (simp_all add: truthyStr_def truthyNum_def)
  have X: "?X = (Inr False, fst (snd ?X), snd (snd ?X))"
    and Xs: "map req_method (sent (snd (snd ?X))) = [Some ''put'']"
    by (simp_all add: page_updatePageData_def updatePageData_def editedPage_def examplePage_def
        isValidPageObj_def isValid_def defs stringify_def emptyPayload_def isBooleanTrue_def
        executeRequest_def currentRequest_def setEndpoint_def setHttpMethod_def
        setRequestBody_def constServer_def exampleState_def Let_def)
  have Y0: "page_updatePageData (constServer 500) labelledPage JUndefined exampleState
              = (Inr True, labelledPage, exampleState)"
    by (simp add: page_updatePageData_def labelledPage_def formPage_def examplePage_def)
  have Y: "?Y = (Inr False, fst (snd ?Y), snd (snd ?Y))"
    and Ys: "map req_method (sent (snd (snd ?Y))) = [Some ''get'']"
    by (simp_all add: page_updatePageLabels_def updatePageLabels_def labelledPage_def
        formPage_def examplePage_def isValidPageObj_def isValid_def defs
        executeRequest_def currentRequest_def setEndpoint_def setHttpMethod_def
        constServer_def exampleState_def Let_def)
  have Z0: "page_updatePageData (constServer 304) formPage JUndefined exampleState
              = (Inr True, formPage, exampleState)"
    "page_updatePageLabels (constServer 304) formPage exampleState
              = (Inr True, formPage, exampleState)"
    by (simp_all add: page_updatePageData_def page_updatePageLabels_def formPage_def
        examplePage_def)
  have Z: "fst ?Z = Inr True" and Zs: "map req_method (sent (snd (snd ?Z))) = [Some ''put'']"
    by (simp_all add: page_updateScaffoldingData_def updateScaffoldingData_def formPage_def
        examplePage_def isValidPageObj_def isValid_def defs executeRequest_def
        currentRequest_def setEndpoint_def setHttpMethod_def setRequestBody_def
        constServer_def exampleState_def Let_def)
  have clean: "\<not> hasTitleChanged examplePage \<and> \<not> hasSpaceKeyChanged examplePage
      \<and> \<not> hasParentPageIdChanged examplePage \<and> \<not> hasBodyChanged examplePage
      \<and> \<not> haveLabelsChanged examplePage \<and> \<not> hasScaffoldingDataChanged examplePage"
    by (simp add: examplePage_def)
  from clean_page_saves_nothing_and_update_order[of examplePage "constServer 500" JUndefined
      exampleState] clean
  have A: "page_update (constServer 500) examplePage JUndefined exampleState
             = (Inr True, examplePage, exampleState)"
    by blast
  from clean_page_saves_nothing_and_update_order[of editedPage "constServer 500" JUndefined
      exampleState "fst (snd ?X)" "snd (snd ?X)"] X
  have B: "page_update (constServer 500) editedPage JUndefined exampleState = ?X"
    by simp
  from clean_page_saves_nothing_and_update_order[of labelledPage "constServer 500" JUndefined
      exampleState labelledPage exampleState "fst (snd ?Y)" "snd (snd ?Y)"] Y0 Y
  have C: "page_update (constServer 500) labelledPage JUndefined exampleState = ?Y"
    by simp
  from clean_page_saves_nothing_and_update_order[of formPage "constServer 304" JUndefined
      exampleState formPage exampleState formPage exampleState] Z0
  have D: "page_update (constServer 304) formPage JUndefined exampleState = ?Z"
    by simp
  show ?thesis
    unfolding A B C D using X Xs Y Ys Z Zs by (metis fst_conv)
qed

subsection \<open>updatePageLabels\<close>

text \<open>
  C1. A valid page with an id holds the labels a and b, and the server lists the labels
  b and c, each pair in either order. Whatever the server answers afterwards,
  \<open>updatePageLabels\<close> executes exactly three requests: the listing, one removal (of c)
  and one addition (of a). Its result is the conjunction of the two outcomes, the
  removal having succeeded when its reply has status 204 and the addition when its
  reply has status 200. The addition is requested also when the removal has failed,
  and afterwards the page holds the labels a and b.
\<close>

theorem updatePageLabels_ab_bc:
  assumes valid: "isValidPageObj p" and ident: "truthyStr (strId p)"
    and labels: "arrLabels p = Some a" "arrays st a = local" "a < next_addr st"
    and sets: "local = [''a'', ''b''] \<or> local = [''b'', ''a'']"
      "remote = [''b'', ''c''] \<or> remote = [''c'', ''b'']"
    and listing: "srv (sent st) (labelsRequest st p) = Response 200 (LabelsDoc 2 (Some remote))"
  shows "fst (updatePageLabels srv p st) =
           Inr (statusOf (srv (sent st @ [labelsRequest st p]) (removeLabelRequest p ''c'')) = Some 204
                \<and> statusOf (srv (sent st @ [labelsRequest st p, removeLabelRequest p ''c''])
                             (addLabelsRequest p [''a''])) = Some 200)
         \<and> sent (snd (snd (updatePageLabels srv p st))) =
             sent st @ [labelsRequest st p, removeLabelRequest p ''c'', addLabelsRequest p [''a'']]
         \<and> map_option (\<lambda>a'. set (arrays (snd (snd (updatePageLabels srv p st))) a'))
              (arrLabels (fst (snd (updatePageLabels srv p st)))) = Some {''a'', ''b''}"
proof -
  let ?r1 = "srv (sent st @ [labelsRequest st p]) (removeLabelRequest p ''c'')"
  let ?r2 = "srv (sent st @ [labelsRequest st p, removeLabelRequest p ''c'']) (addLabelsRequest p [''a''])"
  show ?thesis
    using assms
    apply (cases ?r1; cases ?r2)
    apply (auto simp add: updatePageLabels_def executeRequest_def currentRequest_def setEndpoint_def
      setHttpMethod_def setRequestBody_def labelsRequest_def removeLabelRequest_def
      addLabelsRequest_def existsLocally_def existsRemote_def removePageLabel_def
      addPageLabels_def addLoop.simps valid_a norm_a removeLabel_def addLabel_def alloc_def
      push_def statusOf_def Let_def isValidPageObj_def isValid_def)
    done
qed

theorem updatePageLabels_ab_bc_witness:
  "isValidPageObj examplePage \<and> truthyStr (strId examplePage)
   \<and> arrLabels examplePage = Some 0 \<and> arrays (labelledState [''a'', ''b'']) 0 = [''a'', ''b'']
   \<and> 0 < next_addr (labelledState [''a'', ''b''])
   \<and> fst (updatePageLabels (labelServer [''b'', ''c''] 500 200) examplePage
             (labelledState [''a'', ''b''])) = Inr False
   \<and> sent (snd (snd (updatePageLabels (labelServer [''b'', ''c''] 500 200) examplePage
             (labelledState [''a'', ''b'']))))
       = [labelsRequest (labelledState [''a'', ''b'']) examplePage,
          removeLabelRequest examplePage ''c'', addLabelsRequest examplePage [''a'']]"
proof -
  have v: "isValidPageObj examplePage" "truthyStr (strId examplePage)"
    "arrLabels examplePage = Some 0"
    by (simp_all add: isValidPageObj_def isValid_def examplePage_def truthyStr_def)
  have l: "arrays (labelledState [''a'', ''b'']) 0 = [''a'', ''b'']"
    "0 < next_addr (labelledState [''a'', ''b''])"
    by (simp_all add: labelledState_def)
  have o: "[''a'', ''b''] = [''a'', ''b''] \<or> [''a'', ''b''] = [''b'', ''a'']"
    "[''b'', ''c''] = [''b'', ''c''] \<or> [''b'', ''c''] = [''c'', ''b'']"
    by simp_all
  have g: "labelServer [''b'', ''c''] 500 200 (sent (labelledState [''a'', ''b'']))
             (labelsRequest (labelledState [''a'', ''b'']) examplePage)
           = Response 200 (LabelsDoc 2 (Some [''b'', ''c'']))"
    by (simp add: labelServer_def labelsRequest_def)
  from updatePageLabels_ab_bc[where p = examplePage and a = 0
      and st = "labelledState [''a'', ''b'']" and srv = "labelServer [''b'', ''c''] 500 200"
      and local = "[''a'', ''b'']" and remote = "[''b'', ''c'']", OF v l o g] v l
  show ?thesis
    by (simp add: labelServer_def removeLabelRequest_def addLabelsRequest_def statusOf_def
        labelledState_def exampleState_def)
qed

lemma existsLocally_iff: "existsLocally r ls = (r \<in> set ls)"
proof -
  have "foldl (\<lambda>e l. if r = l then True else e) acc ls = (acc \<or> r \<in> set ls)" for acc
    by (induction ls arbitrary: acc) auto
  then show ?thesis by (simp add: existsLocally_def)
qed

lemma existsRemote_iff: "existsRemote l rs = (l \<in> set rs)"
proof -
  have "foldl (\<lambda>e r. if l = r then True else e) acc rs = (acc \<or> l \<in> set rs)" for acc
    by (induction rs arbitrary: acc) auto
  then show ?thesis by (simp add: existsRemote_def)
qed

lemma outcomes_append:
  "outcomes srv hist (es @ fs) = outcomes srv hist es @ outcomes srv (hist @ map fst es) fs"
  by (induction es arbitrary: hist) auto

lemma removePageLabel_step:
  assumes "reconcileInv loc local i p st" and "isValidLabelName r"
  shows "\<exists>p' st'. removePageLabel srv p r st =
                     (Inr (statusOf (srv (sent st) (removeLabelRequest p r)) = Some 204), p', st')
           \<and> sent st' = sent st @ [removeLabelRequest p r] \<and> reconcileInv loc local i p' st'"
  using assms
  by (cases "srv (sent st) (removeLabelRequest p r)")
     (auto simp: reconcileInv_def removePageLabel_def removeLabelRequest_def executeRequest_def
        currentRequest_def setEndpoint_def setHttpMethod_def setRequestBody_def statusOf_def
        removeLabel_def alloc_def isValidPageObj_def isValid_def Let_def split: option.splits)

lemma addPageLabels_step:
  assumes "reconcileInv loc local i p st" and "isValidLabelName l" and "normalizeLabel l = l"
    and "l \<in> set local"
  shows "\<exists>p' st'. addPageLabels srv p [l] st =
                     (Inr (statusOf (srv (sent st) (addLabelsRequest p [l])) = Some 200), p', st')
           \<and> sent st' = sent st @ [addLabelsRequest p [l]] \<and> reconcileInv loc local i p' st'"
  using assms
  by (cases "srv (sent st) (addLabelsRequest p [l])")
     (auto simp: reconcileInv_def addPageLabels_def addLabelsRequest_def executeRequest_def
        currentRequest_def setEndpoint_def setHttpMethod_def setRequestBody_def statusOf_def
        addLabel_def alloc_def push_def isValidPageObj_def isValid_def Let_def
        split: option.splits)

lemma request_cong:
  "strId p' = strId p \<Longrightarrow> removeLabelRequest p' = removeLabelRequest p"
  "strId p' = strId p \<Longrightarrow> addLabelsRequest p' = addLabelsRequest p"
  by (auto simp: removeLabelRequest_def addLabelsRequest_def fun_eq_iff)

lemma removeLoop_spec:
  assumes "reconcileInv loc local i p st" and "list_all isValidLabelName rs"
  shows "\<exists>p' st'. removeLoop srv loc rs res p st =
            (Inr (res \<and> list_all id (outcomes srv (sent st)
                     (map (\<lambda>r. (removeLabelRequest p r, 204)) (filter (\<lambda>r. r \<notin> set local) rs)))),
             p', st')
          \<and> sent st' = sent st @ map (removeLabelRequest p) (filter (\<lambda>r. r \<notin> set local) rs)
          \<and> reconcileInv loc local i p' st'"
  using assms
proof (induction rs arbitrary: res p st)
  case Nil
  then show ?case by simp
next
  case (Cons r rs)
  from Cons.prems have inv: "reconcileInv loc local i p st" and vr: "isValidLabelName r"
    and vrs: "list_all isValidLabelName rs" by auto
  from inv have loc: "arrays st loc = local" by (simp add: reconcileInv_def)
  show ?case
  proof (cases "r \<in> set local")
    case True
    with Cons.IH[OF inv vrs, of res] loc show ?thesis by (simp add: existsLocally_iff)
  next
    case False
    from removePageLabel_step[OF inv vr, of srv]
    obtain p1 st1 where
      step: "removePageLabel srv p r st =
               (Inr (statusOf (srv (sent st) (removeLabelRequest p r)) = Some 204), p1, st1)"
      and s1: "sent st1 = sent st @ [removeLabelRequest p r]"
      and inv1: "reconcileInv loc local i p1 st1" by blast
    from inv inv1 have "strId p1 = strId p" by (simp add: reconcileInv_def)
    then have rq: "removeLabelRequest p1 = removeLabelRequest p" by (rule request_cong)
    from Cons.IH[OF inv1 vrs,
        of "if \<not> (statusOf (srv (sent st) (removeLabelRequest p r)) = Some 204) then False else res"]
    show ?thesis using False loc step s1 rq
      by (auto simp: existsLocally_iff)
  qed
qed


lemma addLoop_spec:
  assumes "reconcileInv loc local i p st"
    and "list_all isValidLabelName local" and "\<forall>l \<in> set local. normalizeLabel l = l"
  shows "\<exists>p' st'. addLoop srv loc remote c res p st =
            (Inr (res \<and> list_all id (outcomes srv (sent st)
                     (map (\<lambda>l. (addLabelsRequest p [l], 200))
                        (filter (\<lambda>l. l \<notin> set remote) (drop c local))))),
             p', st')
          \<and> sent st' = sent st @ map (\<lambda>l. addLabelsRequest p [l])
                                    (filter (\<lambda>l. l \<notin> set remote) (drop c local))
          \<and> reconcileInv loc local i p' st'"
  using assms(1)
proof (induction "length local - c" arbitrary: c res p st)
  case 0
  then have "\<not> c < length (arrays st loc)" by (simp add: reconcileInv_def)
  moreover from 0 have "drop c local = []" by simp
  ultimately show ?case using 0 by (subst addLoop.simps) simp
next
  case (Suc n)
  then have c: "c < length local" and inv: "reconcileInv loc local i p st" by auto
  from inv have loc: "arrays st loc = local" by (simp add: reconcileInv_def)
  let ?l = "local ! c"
  have dr: "drop c local = ?l # drop (Suc c) local" using c by (simp add: Cons_nth_drop_Suc)
  have n: "n = length local - Suc c" using Suc.hyps(2) by simp
  have lin: "?l \<in> set local" using c by simp
  with assms have vl: "isValidLabelName ?l" and nl: "normalizeLabel ?l = ?l"
    by (auto simp: list_all_iff)
  show ?case
  proof (cases "?l \<in> set remote")
    case True
    with Suc.hyps(1)[OF n inv, of res] c loc dr show ?thesis
      by (subst addLoop.simps) (simp add: existsRemote_iff)
  next
    case False
    from addPageLabels_step[OF inv vl nl lin, of srv]
    obtain p1 st1 where
      step: "addPageLabels srv p [?l] st =
               (Inr (statusOf (srv (sent st) (addLabelsRequest p [?l])) = Some 200), p1, st1)"
      and s1: "sent st1 = sent st @ [addLabelsRequest p [?l]]"
      and inv1: "reconcileInv loc local i p1 st1" by blast
    from inv inv1 have "strId p1 = strId p" by (simp add: reconcileInv_def)
    then have rq: "addLabelsRequest p1 = addLabelsRequest p" by (rule request_cong)
    from Suc.hyps(1)[OF n inv1,
        of "if \<not> (statusOf (srv (sent st) (addLabelsRequest p [?l])) = Some 200) then False else res"]
    show ?thesis using False c loc dr step s1 rq
      by (subst addLoop.simps) (auto simp: existsRemote_iff)
  qed
qed

text \<open>
  C2, as the code has it. In \<open>updatePageLabels\<close> a name of the server and a name of the
  page are compared with \<open>==\<close> as they are stored; nothing is normalised, so two names
  that differ in case are different labels. The page is valid and has an id; the names
  it holds (none when it has no label array) are valid label names in normalised form;
  the listing is answered with status 200 and a label list whose names \<open>remote\<close> are
  valid, where a list of size 0 counts as empty whatever results it has. Then the
  method requests, after the listing, the removal of exactly the server names that are
  not, character by character, among the names of the page, and then the addition of
  exactly the names of the page that are not among the names of the server; it returns
  whether every one of these requests succeeded.
\<close>

theorem updatePageLabels_reconciles:
  assumes valid: "isValidPageObj p" and ident: "truthyStr (strId p)"
    and store: "labelsAllocated p st"
    and names: "list_all isValidLabelName (localLabels p st)"
      "\<forall>l \<in> set (localLabels p st). normalizeLabel l = l"
      "list_all isValidLabelName remote"
    and listing: "srv (sent st) (labelsRequest st p) = Response 200 (LabelsDoc n rs)"
      "(n > 0 \<and> rs = Some remote) \<or> (n = 0 \<and> remote = [])"
  shows "fst (updatePageLabels srv p st) =
           Inr (list_all id (outcomes srv (sent st @ [labelsRequest st p])
                               (reconciliation p (localLabels p st) remote)))
         \<and> sent (snd (snd (updatePageLabels srv p st))) =
             sent st @ labelsRequest st p # map fst (reconciliation p (localLabels p st) remote)"
proof -
  let ?local = "localLabels p st"
  let ?st3 = "st\<lparr>restEndpoint := Some (ContentLabel (strOf (strId p))),
                  restMethod := Some ''get'', sent := sent st @ [labelsRequest st p]\<rparr>"
  let ?R = "map (\<lambda>r. (removeLabelRequest p r, 204)) (filter (\<lambda>r. r \<notin> set ?local) remote)"
  let ?A = "map (\<lambda>l. (addLabelsRequest p [l], 200)) (filter (\<lambda>l. l \<notin> set remote) ?local)"
  obtain loc st4 where
    arr: "(case arrLabels p of Some a \<Rightarrow> (a, ?st3) | None \<Rightarrow> alloc [] ?st3) = (loc, st4)"
    by (cases "case arrLabels p of Some a \<Rightarrow> (a, ?st3) | None \<Rightarrow> alloc [] ?st3")
  have s4: "sent st4 = sent ?st3"
    using arr by (auto simp: alloc_def split: option.splits)
  have inv: "reconcileInv loc ?local (strId p) p st4"
    using valid ident store arr
    by (auto simp: reconcileInv_def localLabels_def labelsAllocated_def alloc_def
        split: option.splits)
  from removeLoop_spec[OF inv names(3), of srv True]
  obtain p5 st5 where
    rl: "removeLoop srv loc remote True p st4 =
           (Inr (list_all id (outcomes srv (sent st4) ?R)), p5, st5)"
    and s5: "sent st5 = sent st4 @ map (removeLabelRequest p) (filter (\<lambda>r. r \<notin> set ?local) remote)"
    and inv5: "reconcileInv loc ?local (strId p) p5 st5" by auto
  from inv5 have "strId p5 = strId p" by (simp add: reconcileInv_def)
  then have rq: "addLabelsRequest p5 = addLabelsRequest p" by (rule request_cong)
  from addLoop_spec[OF inv5 names(1,2), of srv remote 0 True]
  obtain p6 st6 where
    al: "addLoop srv loc remote 0 True p5 st5 =
           (Inr (list_all id (outcomes srv (sent st5) ?A)), p6, st6)"
    and s6: "sent st6 = sent st5 @ map (\<lambda>l. addLabelsRequest p [l])
                                     (filter (\<lambda>l. l \<notin> set remote) ?local)"
    by (auto simp: rq)
  have upd: "updatePageLabels srv p st =
          (Inr (list_all id (outcomes srv (sent st4) ?R) \<and> list_all id (outcomes srv (sent st5) ?A)),
           p6, st6)"
  proof (cases "arrLabels p")
    case None
    with arr have "alloc [] ?st3 = (loc, st4)" by simp
    with None valid ident listing rl al show ?thesis
      by (auto simp: updatePageLabels_def executeRequest_def currentRequest_def setEndpoint_def
          setHttpMethod_def labelsRequest_def Let_def)
  next
    case (Some a)
    with arr have "loc = a" "st4 = ?st3" by simp_all
    with Some valid ident listing rl al show ?thesis
      by (auto simp: updatePageLabels_def executeRequest_def currentRequest_def setEndpoint_def
          setHttpMethod_def labelsRequest_def Let_def)
  qed
  have m: "map fst ?R = map (removeLabelRequest p) (filter (\<lambda>r. r \<notin> set ?local) remote)"
    "map fst ?A = map (\<lambda>l. addLabelsRequest p [l]) (filter (\<lambda>l. l \<notin> set remote) ?local)"
    by (simp_all add: comp_def)
  show ?thesis
    using upd s4 s5 s6 m
    by (simp add: reconciliation_def outcomes_append comp_def)
qed

theorem updatePageLabels_reconciles_witness:
  "isValidPageObj examplePage \<and> truthyStr (strId examplePage)
   \<and> labelsAllocated examplePage (labelledState [''draft'', ''todo''])
   \<and> localLabels examplePage (labelledState [''draft'', ''todo'']) = [''draft'', ''todo'']
   \<and> list_all isValidLabelName [''draft'', ''todo'']
   \<and> normalizeLabel ''draft'' = ''draft'' \<and> normalizeLabel ''todo'' = ''todo''
   \<and> list_all isValidLabelName [''Draft'', ''todo'']
   \<and> labelServer [''Draft'', ''todo''] 204 200 (sent (labelledState [''draft'', ''todo'']))
         (labelsRequest (labelledState [''draft'', ''todo'']) examplePage)
       = Response 200 (LabelsDoc 2 (Some [''Draft'', ''todo'']))
   \<and> fst (updatePageLabels (labelServer [''Draft'', ''todo''] 204 200) examplePage
             (labelledState [''draft'', ''todo''])) = Inr True
   \<and> sent (snd (snd (updatePageLabels (labelServer [''Draft'', ''todo''] 204 200) examplePage
             (labelledState [''draft'', ''todo'']))))
       = [labelsRequest (labelledState [''draft'', ''todo'']) examplePage,
          removeLabelRequest examplePage ''Draft'', addLabelsRequest examplePage [''draft'']]
   \<and> labelsAllocated (examplePage\<lparr>arrLabels := None\<rparr>) exampleState
   \<and> localLabels (examplePage\<lparr>arrLabels := None\<rparr>) exampleState = []
   \<and> labelServer [] 204 200 (sent exampleState)
         (labelsRequest exampleState (examplePage\<lparr>arrLabels := None\<rparr>))
       = Response 200 (LabelsDoc 0 (Some []))
   \<and> fst (updatePageLabels (labelServer [] 204 200) (examplePage\<lparr>arrLabels := None\<rparr>)
             exampleState) = Inr True
   \<and> sent (snd (snd (updatePageLabels (labelServer [] 204 200) (examplePage\<lparr>arrLabels := None\<rparr>)
             exampleState)))
       = [labelsRequest exampleState (examplePage\<lparr>arrLabels := None\<rparr>)]"
proof -
  let ?st = "labelledState [''draft'', ''todo'']"
  let ?q = "examplePage\<lparr>arrLabels := None\<rparr>"
  have v: "isValidPageObj examplePage" "truthyStr (strId examplePage)"
    "labelsAllocated examplePage ?st"
    by (simp_all add: isValidPageObj_def isValid_def examplePage_def truthyStr_def
        labelsAllocated_def labelledState_def)
  have l: "localLabels examplePage ?st = [''draft'', ''todo'']"
    by (simp add: localLabels_def examplePage_def labelledState_def)
  have n: "normalizeLabel ''draft'' = ''draft''" "normalizeLabel ''todo'' = ''todo''"
    by (simp_all add: normalizeLabel_def toLowerCase_def lowerChar_def isUpperLatin1_def
      trim_def isWhiteSpace_def)
  have w0: "list_all isValidLabelName [''draft'', ''todo'']"
    "list_all isValidLabelName [''Draft'', ''todo'']"
    by (simp_all add: isValidLabelName_def isLabelChar_def isDigit_def isLowerLetter_def
        isUpperLetter_def)
  have w: "list_all isValidLabelName (localLabels examplePage ?st)"
    "\<forall>l \<in> set (localLabels examplePage ?st). normalizeLabel l = l"
    "list_all isValidLabelName [''Draft'', ''todo'']"
    using n w0 by (simp_all add: l)
  have g: "labelServer [''Draft'', ''todo''] 204 200 (sent ?st) (labelsRequest ?st examplePage)
           = Response 200 (LabelsDoc 2 (Some [''Draft'', ''todo'']))"
    "((2::nat) > 0 \<and> Some [''Draft'', ''todo''] = Some [''Draft'', ''todo''])
     \<or> ((2::nat) = 0 \<and> [''Draft'', ''todo''] = [])"
    by (simp_all add: labelServer_def labelsRequest_def)
  have v': "isValidPageObj ?q" "truthyStr (strId ?q)" "labelsAllocated ?q exampleState"
    by (simp_all add: isValidPageObj_def isValid_def examplePage_def truthyStr_def
        labelsAllocated_def)
  have l': "localLabels ?q exampleState = []"
    by (simp add: localLabels_def)
  have w': "list_all isValidLabelName (localLabels ?q exampleState)"
    "\<forall>l \<in> set (localLabels ?q exampleState). normalizeLabel l = l"
    "list_all isValidLabelName []"
    by (simp_all add: l')
  have g': "labelServer [] 204 200 (sent exampleState) (labelsRequest exampleState ?q)
            = Response 200 (LabelsDoc 0 (Some []))"
    "((0::nat) > 0 \<and> Some [] = Some []) \<or> ((0::nat) = 0 \<and> [] = [])"
    by (simp_all add: labelServer_def labelsRequest_def)
  from updatePageLabels_reconciles[where p = examplePage and st = ?st
      and srv = "labelServer [''Draft'', ''todo''] 204 200"
      and remote = "[''Draft'', ''todo'']" and n = 2 and rs = "Some [''Draft'', ''todo'']",
      OF v w g, unfolded l]
  have A: "fst (updatePageLabels (labelServer [''Draft'', ''todo''] 204 200) examplePage ?st)
             = Inr True"
    "sent (snd (snd (updatePageLabels (labelServer [''Draft'', ''todo''] 204 200) examplePage ?st)))
       = [labelsRequest ?st examplePage,
          removeLabelRequest examplePage ''Draft'', addLabelsRequest examplePage [''draft'']]"
    by (simp_all add: reconciliation_def labelServer_def removeLabelRequest_def
        addLabelsRequest_def statusOf_def labelledState_def exampleState_def)
  from updatePageLabels_reconciles[where p = ?q and st = exampleState
      and srv = "labelServer [] 204 200" and remote = "[]" and n = 0 and rs = "Some []",
      OF v' w' g', unfolded l']
  have B: "fst (updatePageLabels (labelServer [] 204 200) ?q exampleState) = Inr True"
    "sent (snd (snd (updatePageLabels (labelServer [] 204 200) ?q exampleState)))
       = [labelsRequest exampleState ?q]"
    by (simp_all add: reconciliation_def exampleState_def)
  show ?thesis
    using v l n w0 g(1) A v'(3) l' g'(1) B by simp
qed

text \<open>The claim as written fails: the page holds the label a and the server lists the
  label A, which has the same normalised form; \<open>updatePageLabels\<close> removes A on the server
  and adds a.\<close>

theorem updatePageLabels_case_counterexample:
  "normalizeLabel ''A'' = normalizeLabel ''a''
   \<and> map req_endpoint
        (sent (snd (snd (updatePageLabels (labelServer [''A''] 204 200) examplePage
                          (labelledState [''a''])))))
       = [Some (ContentLabel ''100''), Some (ContentLabelName ''100'' ''A''),
          Some (ContentLabel ''100'')]"
  by (simp add: updatePageLabels_def executeRequest_def currentRequest_def setEndpoint_def
      setHttpMethod_def setRequestBody_def existsLocally_def existsRemote_def removePageLabel_def
      addPageLabels_def addLoop.simps removeLabel_def addLabel_def alloc_def
      push_def Let_def isValidPageObj_def isValid_def labelServer_def labelledState_def
      exampleState_def examplePage_def truthyStr_def strOf_def
      isValidLabelName_def isLabelChar_def isDigit_def isLowerLetter_def isUpperLetter_def
      normalizeLabel_def toLowerCase_def lowerChar_def isUpperLatin1_def
      trim_def isWhiteSpace_def)

subsection \<open>searchPages\<close>

lemma sameClient_refl: "sameClient st st"
  by (simp add: sameClient_def)

lemma sameClient_trans: "sameClient a b \<Longrightarrow> sameClient b c \<Longrightarrow> sameClient a c"
  by (simp add: sameClient_def)

lemma readLabels_sameClient: "readLabels j p st = Inr (p', st') \<Longrightarrow> sameClient st st'"
  by (auto simp: readLabels_def alloc_def sameClient_def split: option.splits if_splits)

lemma initialize_sameClient:
  "initialize j st = (r, st') \<Longrightarrow> sameClient st st'"
  "initializeAncestors js st = (rs, st'') \<Longrightarrow> sameClient st st''"
proof (induction j st and js st arbitrary: r st' and rs st''
    rule: initialize_initializeAncestors.induct)
  case (1 i s t k v b h ru rg uu ug lu ls ancs st)
  let ?j = "PageJson i s t k v b h ru rg uu ug lu ls ancs"
  note prem = "1.prems"
  show ?case
  proof (cases "readFields ?j (barePage st)")
    case (Inl e)
    with prem show ?thesis by (simp add: sameClient_refl)
  next
    case p1: (Inr p1)
    show ?thesis
    proof (cases "readLabels ?j p1 st")
      case (Inl e)
      with prem p1 show ?thesis by (simp add: sameClient_refl)
    next
      case (Inr x)
      then obtain p2 st2 where l: "readLabels ?j p1 st = Inr (p2, st2)" by (cases x) simp
      then have sc: "sameClient st st2" by (rule readLabels_sameClient)
      show ?thesis
      proof (cases ancs)
        case None
        with prem p1 l sc show ?thesis by auto
      next
        case (Some as)
        show ?thesis
        proof (cases as)
          case Nil
          with prem p1 l sc Some show ?thesis by auto
        next
          case (Cons a as')
          show ?thesis
          proof (cases "readParent (a # as') p2")
            case (Inl e)
            with prem p1 l sc Some Cons show ?thesis by (auto simp del: initializeAncestors.simps)
          next
            case p3: (Inr p3)
            obtain qs st3 where ia: "initializeAncestors (a # as') st2 = (qs, st3)"
              by fastforce
            have "sameClient st2 st3"
              using "1.IH"[OF refl p1 l refl Some Cons p3 ia] .
            with sc have "sameClient st st3" by (rule sameClient_trans)
            with prem p1 l Some Cons p3 ia show ?thesis
              by (auto simp del: initializeAncestors.simps split: sum.splits)
          qed
        qed
      qed
    qed
  qed
next
  case (2 st)
  then show ?case by (simp add: sameClient_refl)
next
  case (3 j js st)
  obtain r1 st1 where i1: "initialize j st = (r1, st1)" by fastforce
  have s1: "sameClient st st1" using "3.IH"(1)[OF i1] .
  show ?case
  proof (cases r1)
    case (Inl e)
    with "3.prems" i1 s1 show ?thesis by simp
  next
    case (Inr p)
    obtain r2 st2 where i2: "initializeAncestors js st1 = (r2, st2)" by fastforce
    have "sameClient st1 st2" using "3.IH"(2)[OF i1[symmetric] _ i2] Inr by simp
    with s1 have "sameClient st st2" by (rule sameClient_trans)
    with "3.prems" i1 Inr i2 show ?thesis by (auto split: sum.splits)
  qed
qed


lemma readFields_wellFormed:
  assumes "wellFormedJson j"
  shows "\<exists>p1. readFields j p = Inr p1 \<and> strId p1 = j_id j"
  using assms by (cases j) (auto simp: readFields_def Let_def split: option.splits prod.splits)

lemma readLabels_wellFormed:
  assumes "wellFormedJson j"
  shows "\<exists>p2 st2. readLabels j p st = Inr (p2, st2) \<and> strId p2 = strId p"
  using assms by (cases j) (auto simp: readLabels_def alloc_def split: option.splits)

lemma readParent_strId: "readParent l p = Inr p3 \<Longrightarrow> strId p3 = strId p"
  by (auto simp: readParent_def setParentPageId_def split: option.splits if_splits)

lemma readParent_wellFormed:
  assumes "wellFormedJson (PageJson i s t k v b h ru rg uu ug lu ls (Some (a # as)))"
  shows "\<exists>p3. readParent (a # as) p = Inr p3"
  using assms
  by (auto simp: readParent_def setParentPageId_def simp del: last.simps split: option.splits)

lemma initialize_wellFormed:
  "wellFormedJson j \<Longrightarrow> \<exists>p st'. initialize j st = (Inr p, st') \<and> strId p = j_id j"
  "(\<forall>j \<in> set js. wellFormedJson j) \<Longrightarrow> \<exists>ps st'. initializeAncestors js st = (Inr ps, st')"
proof (induction j st and js st rule: initialize_initializeAncestors.induct)
  case (1 i s t k v b h ru rg uu ug lu ls ancs st)
  let ?j = "PageJson i s t k v b h ru rg uu ug lu ls ancs"
  note wf = "1.prems"
  obtain p1 where p1: "readFields ?j (barePage st) = Inr p1" and i1: "strId p1 = i"
    using readFields_wellFormed[OF wf] by auto
  obtain p2 st2 where l: "readLabels ?j p1 st = Inr (p2, st2)" and i2: "strId p2 = i"
    using readLabels_wellFormed[OF wf, of p1 st] i1 by auto
  show ?case
  proof (cases ancs)
    case None
    with p1 l i2 show ?thesis by (simp add: clearFlags_def)
  next
    case (Some as)
    show ?thesis
    proof (cases as)
      case Nil
      with p1 l i2 Some show ?thesis by (simp add: clearFlags_def)
    next
      case (Cons a as')
      obtain p3 where p3: "readParent (a # as') p2 = Inr p3"
        using readParent_wellFormed wf Some Cons by blast
      then have i3: "strId p3 = i" using readParent_strId i2 by blast
      have "\<forall>j \<in> set (a # as'). wellFormedJson j" using wf Some Cons by simp
      then obtain ps st3 where ia: "initializeAncestors (a # as') st2 = (Inr ps, st3)"
        using "1.IH"[OF refl p1 l refl Some Cons p3] by blast
      with p1 l Some Cons p3 i3 show ?thesis
        by (simp del: initializeAncestors.simps add: clearFlags_def)
    qed
  qed
next
  case (2 st)
  then show ?case by simp
next
  case (3 j js st)
  then obtain p st1 where i1: "initialize j st = (Inr p, st1)" by fastforce
  obtain ps st2 where i2: "initializeAncestors js st1 = (Inr ps, st2)"
    using "3.IH"(2)[OF i1[symmetric] refl] "3.prems" by auto
  with i1 show ?case by simp
qed

lemma newPages_wellFormed:
  "(\<forall>j \<in> set js. wellFormedJson j) \<Longrightarrow>
     \<exists>ps st'. newPages js st = (Inr ps, st') \<and> map strId ps = map j_id js \<and> sameClient st st'"
proof (induction js arbitrary: st)
  case Nil
  then show ?case by (simp add: sameClient_refl)
next
  case (Cons j js)
  then obtain p st1 where i1: "initialize j st = (Inr p, st1)" and ip: "strId p = j_id j"
    using initialize_wellFormed(1)[of j st] by auto
  have s1: "sameClient st st1" using initialize_sameClient(1)[OF i1] .
  obtain ps st2 where n: "newPages js st1 = (Inr ps, st2)" and m: "map strId ps = map j_id js"
    and s2: "sameClient st1 st2"
    using Cons.IH[of st1] Cons.prems by auto
  from s1 s2 have "sameClient st st2" by (rule sameClient_trans)
  with i1 ip n m show ?case by simp
qed


lemma searchLoop_pages:
  assumes "servesPages srv (sent st) (searchRequest (restBody st) cql inc) start rss"
    and "\<forall>j \<in> set (concat rss). wellFormedJson j"
  shows "\<exists>ps st'. searchLoop srv cql inc start acc st = Some (Some (acc @ ps), st')
           \<and> map strId ps = map j_id (concat rss)
           \<and> sent st' = sent st @ map (searchRequest (restBody st) cql inc) (offsets start rss)"
  using assms
proof (induction rss arbitrary: start acc st)
  case Nil
  then show ?case
    by (subst searchLoop.simps)
       (simp add: executeRequest_def currentRequest_def setEndpoint_def setHttpMethod_def
          searchRequest_def)
next
  case (Cons rs rss)
  let ?mk = "searchRequest (restBody st) cql inc"
  let ?st3 = "st\<lparr>restMethod := Some ''get'',
                  restEndpoint := Some (ContentSearch start cql (getCommonExpansions inc)),
                  sent := sent st @ [?mk start]\<rparr>"
  from Cons.prems have ne: "rs \<noteq> []"
    and ans: "srv (sent st) (?mk start) = Response 200 (ResultsDoc (Some rs))"
    and rest: "servesPages srv (sent st @ [?mk start]) ?mk (start + length rs) rss"
    and wf1: "\<forall>j \<in> set rs. wellFormedJson j" and wf2: "\<forall>j \<in> set (concat rss). wellFormedJson j"
    by auto
  obtain ps st4 where np: "newPages rs ?st3 = (Inr ps, st4)" and ids: "map strId ps = map j_id rs"
    and sc: "sameClient ?st3 st4"
    using newPages_wellFormed[OF wf1, of ?st3] by blast
  from sc have s4: "sent st4 = sent st @ [?mk start]" and b4: "restBody st4 = restBody st"
    by (simp_all add: sameClient_def)
  from Cons.IH[of st4 "start + length rs" "acc @ ps"] rest wf2 s4 b4
  obtain qs st' where
    loop: "searchLoop srv cql inc (start + length rs) (acc @ ps) st4 = Some (Some ((acc @ ps) @ qs), st')"
    and qids: "map strId qs = map j_id (concat rss)"
    and snt: "sent st' = sent st4 @ map ?mk (offsets (start + length rs) rss)"
    by auto
  have step: "searchLoop srv cql inc start acc st =
              searchLoop srv cql inc (start + length rs) (acc @ ps) st4"
    using ans ne np
    by (subst searchLoop.simps)
       (simp add: executeRequest_def currentRequest_def setEndpoint_def setHttpMethod_def
          searchRequest_def)
  show ?case
    using step loop ids qids snt s4 by (intro exI[of _ "ps @ qs"] exI[of _ st']) simp
qed

text \<open>
  C6. The query is usable, the server answers the search requests with status 200 and
  the non-empty result lists \<open>rss\<close>, one after the other, and then with an empty result
  list, and every result is an object \<open>initialize\<close> accepts. Then \<open>searchPages\<close> returns:
  it has executed one request per result list, each with the start offset advanced by
  the number of results received so far, and one more that was answered with the empty
  list; it returns one page per result, in order, with the id of that result.
\<close>

theorem searchPages_pagination:
  assumes "length (trim cql) > 5"
    and "servesPages srv (sent st) (searchRequest (restBody st) (finalCQL cql) inc) 0 rss"
    and "\<forall>j \<in> set (concat rss). wellFormedJson j"
  shows "\<exists>ps st'. searchPages srv cql inc st = Some (Inr (Some ps), st')
           \<and> length ps = length (concat rss)
           \<and> map strId ps = map j_id (concat rss)
           \<and> sent st' =
               sent st @ map (searchRequest (restBody st) (finalCQL cql) inc) (offsets 0 rss)"
proof -
  from searchLoop_pages[OF assms(2,3), of "[]"]
  obtain ps st' where l: "searchLoop srv (finalCQL cql) inc 0 [] st = Some (Some ps, st')"
    and ids: "map strId ps = map j_id (concat rss)"
    and snt: "sent st' =
               sent st @ map (searchRequest (restBody st) (finalCQL cql) inc) (offsets 0 rss)"
    by auto
  from ids have "length ps = length (concat rss)" by (metis length_map)
  with l ids snt assms(1) show ?thesis by (simp add: searchPages_def)
qed

text \<open>A query of four characters between no-break spaces is as short as without them:
  \<open>searchPages\<close> throws and sends nothing.\<close>

lemma searchPages_refuses_padded_query:
  "searchPages srv [CHR 0xA0, CHR 0xA0, CHR ''a'', CHR ''b'', CHR ''='', CHR ''1'', CHR 0xA0] inc st
     = Some (Inl (Error ''ConfluenceClient.searchPages''), st)"
  by (simp add: searchPages_def trim_no_break_space)

lemma wellFormed_examples: "wellFormedJson exampleParentJson" "wellFormedJson exampleJson"
  by (simp_all add: exampleJson_def exampleParentJson_def isValidInteger_def isDigit_def)

theorem searchPages_pagination_witness:
  "length (trim ''type=page'') > 5
   \<and> map_option (map_prod (map_sum id (map_option length)) (\<lambda>st. length (sent st)))
        (searchPages (pagedServer [[exampleJson, exampleParentJson]]) ''type=page'' JUndefined
           exampleState)
       = Some (Inr (Some 2), 2)"
proof -
  have t: "length (trim ''type=page'') > 5" by (simp add: trim_def isWhiteSpace_def)
  have s: "servesPages (pagedServer [[exampleJson, exampleParentJson]]) (sent exampleState)
             (searchRequest (restBody exampleState) (finalCQL ''type=page'') JUndefined) 0
             [[exampleJson, exampleParentJson]]"
    by (simp add: pagedServer_def exampleState_def)
  have w: "\<forall>j \<in> set (concat [[exampleJson, exampleParentJson]]). wellFormedJson j"
    by (simp add: wellFormed_examples)
  from searchPages_pagination[OF t s w] t show ?thesis
    by (auto simp: exampleState_def)
qed

end
